theory Spec2Isabelle
  imports Complex_Main "HOL-Library.Log_Nat" "HOL-Library.Multiset"
begin

section \<open>Numbers as the routes see them\<close>

text \<open>
  Every amount reaches a route as \<^verbatim>\<open>Number(x)\<close> of a JSON field, which is a finite
  IEEE double, \<^verbatim>\<open>NaN\<close> or an infinity. A finite double is kept as the rational number it
  denotes, so \<open>Finite (1 / 2)\<close> is the amount 0.5 and \<open>Finite (2 ^ 53)\<close> the amount
  9007199254740992. Negative zero is not told apart from zero; no route tells them apart.
\<close>

datatype number = Finite rat | NaN | Infinity | NegInfinity

text \<open>\<^verbatim>\<open>Number.isFinite(value)\<close>.\<close>

primrec isFinite :: "number \<Rightarrow> bool" where
  "isFinite (Finite n) = True"
| "isFinite NaN = False"
| "isFinite Infinity = False"
| "isFinite NegInfinity = False"

text \<open>\<^verbatim>\<open>Number.isInteger(value)\<close>: a finite number without a fractional part.\<close>

primrec isInteger :: "number \<Rightarrow> bool" where
  "isInteger (Finite n) = (of_int \<lfloor>n\<rfloor> = n)"
| "isInteger NaN = False"
| "isInteger Infinity = False"
| "isInteger NegInfinity = False"

text \<open>\<^verbatim>\<open>value <= k\<close>, \<^verbatim>\<open>value < k\<close> and \<^verbatim>\<open>value > k\<close> against a literal:
  every comparison with \<^verbatim>\<open>NaN\<close> is false.\<close>

primrec num_le :: "number \<Rightarrow> rat \<Rightarrow> bool" where
  "num_le (Finite n) k = (n \<le> k)"
| "num_le NaN k = False"
| "num_le Infinity k = False"
| "num_le NegInfinity k = True"

primrec num_lt :: "number \<Rightarrow> rat \<Rightarrow> bool" where
  "num_lt (Finite n) k = (n < k)"
| "num_lt NaN k = False"
| "num_lt Infinity k = False"
| "num_lt NegInfinity k = True"

primrec num_gt :: "number \<Rightarrow> rat \<Rightarrow> bool" where
  "num_gt (Finite n) k = (n > k)"
| "num_gt NaN k = False"
| "num_gt Infinity k = True"
| "num_gt NegInfinity k = False"

text \<open>The value of a finite number. The routes bind a number to an SQL parameter only
  after \<^const>\<open>isFinite\<close> has held for it.\<close>

primrec finite_value :: "number \<Rightarrow> rat" where
  "finite_value (Finite n) = n"
| "finite_value NaN = 0"
| "finite_value Infinity = 0"
| "finite_value NegInfinity = 0"

section \<open>The arithmetic of the platform\<close>

text \<open>
  The balance of a lease is computed by SQLite (\<^verbatim>\<open>current_balance + ?\<close>,
  \<^verbatim>\<open>current_balance - ?\<close>) from a stored number and a parameter that node-sqlite3
  binds. None of this is exact arithmetic, and what it does is fixed by the platform, not
  by the repository:
  \<^item> a result that is computed in doubles is rounded to the nearest double, ties to the
    even mantissa (\<open>fl\<close> below; 53 bits of mantissa, gradual underflow, overflow to an
    infinity);
  \<^item> node-sqlite3 binds a number as a 32-bit integer when it is one and as a double
    otherwise;
  \<^item> SQLite adds and subtracts two integers as 64-bit integers, and in doubles when one
    operand is a double or the integer result overflows;
  \<^item> a column of \<^verbatim>\<open>INTEGER\<close> affinity stores an integral double strictly between
    \<open>-2^63\<close> and \<open>2^63\<close> as an integer and any other double as it is;
  \<^item> JavaScript reads a stored integer back as the nearest double.
\<close>

text \<open>A double that is not \<^verbatim>\<open>NaN\<close>.\<close>

datatype double = Dbl rat | PosInf | NegInf

text \<open>The integer nearest to \<open>y\<close>, the even one of two that are equally near.\<close>

definition round_half_even :: "rat \<Rightarrow> int" where
  "round_half_even y =
     (let f = \<lfloor>y\<rfloor>; r = y - of_int f
      in if r < 1 / 2 then f else if 1 / 2 < r then f + 1 else if even f then f else f + 1)"

text \<open>For \<open>a > 0\<close>, the exponent \<open>e\<close> with \<open>2^e \<le> a < 2^(e+1)\<close>.\<close>

definition ilog2 :: "rat \<Rightarrow> int" where
  "ilog2 a = (let (p, q) = quotient_of a; c = bitlen p - bitlen q
              in if 2 powi c \<le> a then c else c - 1)"

text \<open>
  The double nearest to \<open>x\<close>: the mantissa is \<open>\<bar>x\<bar>\<close> in units of \<open>2^(e-52)\<close> rounded to
  an integer, where \<open>e\<close> is the exponent of \<open>\<bar>x\<bar>\<close> and at least -1022; a magnitude that
  rounds to \<open>2^1024\<close> or more is an infinity.
\<close>

definition fl :: "rat \<Rightarrow> double" where
  "fl x = (if x = 0 then Dbl 0
           else let a = \<bar>x\<bar>;
                    e = max (ilog2 a) (- 1022);
                    u = 2 powi (e - 52);
                    m = round_half_even (a / u)
                in if 2 ^ 1024 \<le> of_int m * u
                   then (if 0 < x then PosInf else NegInf)
                   else Dbl (sgn x * of_int m * u))"

text \<open>A number as SQLite holds it: a 64-bit integer or a double.\<close>

datatype sqlnum = SInt int | SReal double

text \<open>A parameter that node-sqlite3 binds as an integer, and the range of SQLite's
  integers.\<close>

definition is_int32 :: "rat \<Rightarrow> bool" where
  "is_int32 p = (of_int \<lfloor>p\<rfloor> = p \<and> - (2 ^ 31) \<le> p \<and> p \<le> 2 ^ 31 - 1)"

definition in_int64 :: "int \<Rightarrow> bool" where
  "in_int64 i = (- (2 ^ 63) \<le> i \<and> i \<le> 2 ^ 63 - 1)"

text \<open>A stored number as a double: what SQLite computes with in doubles, and what
  JavaScript reads.\<close>

primrec to_double :: "sqlnum \<Rightarrow> double" where
  "to_double (SInt i) = fl (of_int i)"
| "to_double (SReal d) = d"

text \<open>\<^verbatim>\<open>INTEGER\<close> affinity, applied to a double on its way into a column.\<close>

primrec affinity :: "double \<Rightarrow> sqlnum" where
  "affinity (Dbl r) =
     (if of_int \<lfloor>r\<rfloor> = r \<and> - (2 ^ 63) < r \<and> r < 2 ^ 63 then SInt \<lfloor>r\<rfloor> else SReal (Dbl r))"
| "affinity PosInf = SReal PosInf"
| "affinity NegInf = SReal NegInf"

text \<open>A bound parameter as an \<^verbatim>\<open>INTEGER\<close> column keeps it. The parameter is a finite
  double; bound as a 32-bit integer or as a double, the column holds the same.\<close>

definition stored :: "rat \<Rightarrow> sqlnum" where
  "stored p = affinity (Dbl p)"

text \<open>The sum in doubles of a double and a finite parameter.\<close>

primrec dadd :: "double \<Rightarrow> rat \<Rightarrow> double" where
  "dadd (Dbl x) p = fl (x + p)"
| "dadd PosInf p = PosInf"
| "dadd NegInf p = NegInf"

text \<open>\<^verbatim>\<open>current_balance + ?\<close> and \<^verbatim>\<open>current_balance - ?\<close> with the result as the
  column keeps it.\<close>

definition sql_add :: "sqlnum \<Rightarrow> rat \<Rightarrow> sqlnum" where
  "sql_add s p =
     (case s of
        SInt i \<Rightarrow>
          if is_int32 p \<and> in_int64 (i + \<lfloor>p\<rfloor>) then SInt (i + \<lfloor>p\<rfloor>)
          else affinity (dadd (to_double s) p)
      | SReal d \<Rightarrow> affinity (dadd d p))"

definition sql_sub :: "sqlnum \<Rightarrow> rat \<Rightarrow> sqlnum" where
  "sql_sub s p =
     (case s of
        SInt i \<Rightarrow>
          if is_int32 p \<and> in_int64 (i - \<lfloor>p\<rfloor>) then SInt (i - \<lfloor>p\<rfloor>)
          else affinity (dadd (to_double s) (- p))
      | SReal d \<Rightarrow> affinity (dadd d (- p)))"

text \<open>A stored number as JavaScript reads it from a row.\<close>

definition js_of :: "sqlnum \<Rightarrow> number" where
  "js_of s = (case to_double s of Dbl r \<Rightarrow> Finite r | PosInf \<Rightarrow> Infinity | NegInf \<Rightarrow> NegInfinity)"

text \<open>\<^verbatim>\<open>Number(x)\<close> in a portal, of a stored number that came as JSON: JSON carries a
  finite number as it is and an infinity as \<^verbatim>\<open>null\<close>, which \<^verbatim>\<open>Number\<close> turns into
  0.\<close>

definition json_number :: "sqlnum \<Rightarrow> rat" where
  "json_number s = (case js_of s of Finite r \<Rightarrow> r | NaN \<Rightarrow> 0 | Infinity \<Rightarrow> 0 | NegInfinity \<Rightarrow> 0)"

section \<open>The rental tables\<close>

text \<open>
  One record per table of \<^verbatim>\<open>init()\<close>, one field per column the rental flow reads.
  The balance of a lease, which SQLite computes with, is a \<^typ>\<open>sqlnum\<close>. The other
  money columns are only written from a finite parameter and read back: they hold the
  value of the parameter (a \<^typ>\<open>rat\<close>), whichever storage class the affinity picks.
  User ids are the UUID strings of the \<^verbatim>\<open>users\<close> table; the ids of the three
  rental tables are \<^verbatim>\<open>INTEGER PRIMARY KEY AUTOINCREMENT\<close>. The ISO timestamps
  \<^verbatim>\<open>new Date().toISOString()\<close> are kept as the instant they denote (a
  \<^typ>\<open>nat\<close>): between such strings the text order of SQL is the order of the
  instants.
\<close>

record user =
  user_id :: string
  email :: string
  role :: string
  full_name :: string

record rental_property =
  rp_id :: nat
  landlord_id :: string
  title :: string
  address :: string
  stage :: string
  rp_monthly_rent :: rat
  rp_created_at :: nat

record lease =
  l_id :: nat
  property_id :: nat
  renter_id :: string
  start_date :: "string option"
  occupants_count :: int
  monthly_rent :: rat
  due_day :: rat
  current_balance :: sqlnum
  is_active :: int
  created_at :: nat

text \<open>The \<^verbatim>\<open>type\<close> column of \<^verbatim>\<open>payments\<close>: \<^verbatim>\<open>'payment'\<close> (renter paid),
  \<^verbatim>\<open>'charge'\<close> (landlord added rent) or \<^verbatim>\<open>'credit'\<close> (landlord reduced the
  balance).\<close>

datatype entry_type = payment | charge | credit

record payment_row =
  p_id :: nat
  lease_id :: nat
  amount :: rat
  paid_at :: nat
  ptype :: entry_type

record db =
  users :: "user list"
  rental_properties :: "rental_property list"
  leases :: "lease list"
  payments :: "payment_row list"

text \<open>The database of a first run: \<^verbatim>\<open>init()\<close> has created the tables and nothing
  is in them.\<close>

definition empty_db :: db where
  "empty_db = \<lparr>users = [], rental_properties = [], leases = [], payments = []\<rparr>"

text \<open>
  \<^verbatim>\<open>AUTOINCREMENT\<close>: the new row's id is one more than the largest id the table has
  held. No statement of the rental flow deletes a row, so that is the largest id in the
  table.
\<close>

definition next_id :: "nat list \<Rightarrow> nat" where
  "next_id ids = Suc (fold max ids 0)"

text \<open>\<^verbatim>\<open>ORDER BY key DESC LIMIT 1\<close>: the row with the greatest key, if there is a
  row.\<close>

fun first_desc :: "('a \<Rightarrow> nat) \<Rightarrow> 'a list \<Rightarrow> 'a option" where
  "first_desc k [] = None"
| "first_desc k (x # xs) =
     (case first_desc k xs of
        None \<Rightarrow> Some x
      | Some y \<Rightarrow> if k x \<le> k y then Some y else Some x)"

text \<open>\<^verbatim>\<open>ORDER BY key DESC\<close>: the greatest key first. SQL leaves the order of rows with
  equal keys open; SQLite's sorter keeps them in the order of the table, the earliest
  inserted first, and so does this sort.\<close>

definition order_desc :: "('a \<Rightarrow> nat) \<Rightarrow> 'a list \<Rightarrow> 'a list" where
  "order_desc k rows = rev (sort_key k (rev rows))"

subsection \<open>Lookups\<close>

text \<open>\<^verbatim>\<open>SELECT * FROM users WHERE id = ? LIMIT 1\<close>\<close>

definition getUserById :: "db \<Rightarrow> string \<Rightarrow> user option" where
  "getUserById st i = find (\<lambda>u. user_id u = i) (users st)"

text \<open>\<^verbatim>\<open>SELECT * FROM rental_properties WHERE id = ? LIMIT 1\<close>\<close>

definition getRentalPropertyById :: "db \<Rightarrow> nat \<Rightarrow> rental_property option" where
  "getRentalPropertyById st i = find (\<lambda>p. rp_id p = i) (rental_properties st)"

text \<open>\<^verbatim>\<open>SELECT * FROM leases WHERE id = ? LIMIT 1\<close>\<close>

definition getLeaseById :: "db \<Rightarrow> nat \<Rightarrow> lease option" where
  "getLeaseById st i = find (\<lambda>l. l_id l = i) (leases st)"

text \<open>\<^verbatim>\<open>SELECT ... FROM leases l ... WHERE l.property_id = ? AND l.is_active = 1
  ORDER BY l.id DESC LIMIT 1\<close>\<close>

definition getActiveLeaseForProperty :: "db \<Rightarrow> nat \<Rightarrow> lease option" where
  "getActiveLeaseForProperty st propertyId =
     first_desc l_id (filter (\<lambda>l. property_id l = propertyId \<and> is_active l = 1) (leases st))"

text \<open>\<^verbatim>\<open>SELECT * FROM rental_properties WHERE landlord_id = ? ORDER BY created_at DESC\<close>\<close>

definition listRentalPropertiesForLandlord :: "db \<Rightarrow> string \<Rightarrow> rental_property list" where
  "listRentalPropertiesForLandlord st landlordId =
     order_desc rp_created_at (filter (\<lambda>p. landlord_id p = landlordId) (rental_properties st))"

text \<open>\<^verbatim>\<open>SELECT * FROM payments WHERE lease_id = ? ORDER BY paid_at DESC\<close>\<close>

definition listPaymentsForLease :: "db \<Rightarrow> nat \<Rightarrow> payment_row list" where
  "listPaymentsForLease st leaseId =
     order_desc paid_at (filter (\<lambda>p. lease_id p = leaseId) (payments st))"

subsection \<open>Writes\<close>

text \<open>
  \<^verbatim>\<open>createLease\<close>: one \<^verbatim>\<open>INSERT INTO leases\<close> with \<^verbatim>\<open>is_active\<close> fixed to 1
  and \<^verbatim>\<open>startDate || null\<close> as the start date, then the latest lease of the property is
  read back. No row of \<^verbatim>\<open>payments\<close> is written.
\<close>

definition createLease ::
  "db \<Rightarrow> nat \<Rightarrow> nat \<Rightarrow> string \<Rightarrow> string option \<Rightarrow> int \<Rightarrow> rat \<Rightarrow> rat \<Rightarrow> rat \<Rightarrow> lease option \<times> db" where
  "createLease st now propertyId renterId startDate occupantsCount monthlyRent dueDay currentBalance =
     (let st' = st\<lparr>leases := leases st @
            [\<lparr>l_id = next_id (map l_id (leases st)), property_id = propertyId,
              renter_id = renterId,
              start_date = (if startDate = Some [] then None else startDate),
              occupants_count = occupantsCount,
              monthly_rent = monthlyRent, due_day = dueDay,
              current_balance = stored currentBalance,
              is_active = 1, created_at = now\<rparr>]\<rparr>
      in (first_desc l_id (filter (\<lambda>l. property_id l = propertyId) (leases st')), st'))"

text \<open>
  \<^verbatim>\<open>recordPayment\<close>: the entry is inserted; only for \<^verbatim>\<open>type === 'payment'\<close> the
  balance of the lease goes down by the amount (charges and credits change the balance
  upstream). The latest entry of the lease is returned.
\<close>

definition recordPayment :: "db \<Rightarrow> nat \<Rightarrow> nat \<Rightarrow> rat \<Rightarrow> entry_type \<Rightarrow> payment_row option \<times> db" where
  "recordPayment st now leaseId amt ty =
     (let st1 = st\<lparr>payments := payments st @
            [\<lparr>p_id = next_id (map p_id (payments st)), lease_id = leaseId, amount = amt,
              paid_at = now, ptype = ty\<rparr>]\<rparr>;
          st2 = (if ty = payment
                 then st1\<lparr>leases := map (\<lambda>l. if l_id l = leaseId
                                               then l\<lparr>current_balance := sql_sub (current_balance l) amt\<rparr>
                                               else l) (leases st1)\<rparr>
                 else st1)
      in (first_desc p_id (filter (\<lambda>p. lease_id p = leaseId) (payments st2)), st2))"

text \<open>\<^verbatim>\<open>updateLeaseBalance\<close>: \<^verbatim>\<open>current_balance = current_balance + delta\<close> for the
  lease, which is then read back.\<close>

definition updateLeaseBalance :: "db \<Rightarrow> nat \<Rightarrow> rat \<Rightarrow> lease option \<times> db" where
  "updateLeaseBalance st leaseId delta =
     (let st' = st\<lparr>leases := map (\<lambda>l. if l_id l = leaseId
                                         then l\<lparr>current_balance := sql_add (current_balance l) delta\<rparr>
                                         else l) (leases st)\<rparr>
      in (getLeaseById st' leaseId, st'))"

text \<open>\<^verbatim>\<open>createRentalProperty\<close>: the row is inserted and the landlord's latest row with
  that title and address is read back.\<close>

definition createRentalProperty ::
  "db \<Rightarrow> nat \<Rightarrow> string \<Rightarrow> string \<Rightarrow> string \<Rightarrow> string \<Rightarrow> rat \<Rightarrow> rental_property option \<times> db" where
  "createRentalProperty st now landlordId ttl addr stg monthlyRent =
     (let st' = st\<lparr>rental_properties := rental_properties st @
            [\<lparr>rp_id = next_id (map rp_id (rental_properties st)), landlord_id = landlordId,
              title = ttl, address = addr, stage = stg, rp_monthly_rent = monthlyRent,
              rp_created_at = now\<rparr>]\<rparr>
      in (first_desc rp_id
            (filter (\<lambda>p. landlord_id p = landlordId \<and> title p = ttl \<and> address p = addr)
               (rental_properties st')), st'))"

subsection \<open>Users and the demo bootstrap\<close>

text \<open>SQL's \<^verbatim>\<open>lower()\<close> folds the letters A to Z only.\<close>

definition lower_char :: "char \<Rightarrow> char" where
  "lower_char c =
     (case map_of (zip ''ABCDEFGHIJKLMNOPQRSTUVWXYZ'' ''abcdefghijklmnopqrstuvwxyz'') c of
        Some d \<Rightarrow> d
      | None \<Rightarrow> c)"

definition lower :: "string \<Rightarrow> string" where
  "lower s = map lower_char s"

text \<open>\<^verbatim>\<open>SELECT * FROM users WHERE lower(email) = lower(?) LIMIT 1\<close>\<close>

definition getUserByEmail :: "db \<Rightarrow> string \<Rightarrow> user option" where
  "getUserByEmail st e = find (\<lambda>u. lower (email u) = lower e) (users st)"

definition createUser :: "db \<Rightarrow> user \<Rightarrow> db" where
  "createUser st u = st\<lparr>users := users st @ [u]\<rparr>"

text \<open>\<^verbatim>\<open>ensureDemoUsers\<close>: each demo account is created unless its email is taken. The
  two results of \<^verbatim>\<open>uuidv4()\<close> are parameters; password hashes are not modelled.\<close>

definition ensureDemoUsers :: "db \<Rightarrow> string \<Rightarrow> string \<Rightarrow> db" where
  "ensureDemoUsers st uuid1 uuid2 =
     (let st1 = (case getUserByEmail st ''landlord@demo.com'' of
                   None \<Rightarrow> createUser st \<lparr>user_id = uuid1, email = ''landlord@demo.com'',
                                            role = ''landlord'', full_name = ''Demo Landlord''\<rparr>
                 | Some landlord \<Rightarrow> st)
      in (case getUserByEmail st1 ''renter@demo.com'' of
            None \<Rightarrow> createUser st1 \<lparr>user_id = uuid2, email = ''renter@demo.com'',
                                      role = ''renter'', full_name = ''Demo Renter''\<rparr>
          | Some renter \<Rightarrow> st1))"

text \<open>
  \<^verbatim>\<open>ensureDemoRentalData\<close>: the demo users, then the landlord's first property (created
  as "Demo Duplex" when there is none), then a lease with
  \<^verbatim>\<open>currentBalance: 1200\<close> unless the property has an active lease. \<open>now\<close> is the
  clock reading of the inserts and \<open>startIso\<close> the text of the start date. The property
  just created is always read back; were it not, the source would fail on \<^verbatim>\<open>prop.id\<close>
  with nothing more written, which is the \<open>None\<close> branch here.
\<close>

definition ensureDemoRentalData :: "db \<Rightarrow> nat \<Rightarrow> string \<Rightarrow> string \<Rightarrow> string \<Rightarrow> db" where
  "ensureDemoRentalData st now startIso uuid1 uuid2 =
     (let st1 = ensureDemoUsers st uuid1 uuid2 in
      case getUserByEmail st1 ''landlord@demo.com'' of
        None \<Rightarrow> st1
      | Some landlord \<Rightarrow>
         (case getUserByEmail st1 ''renter@demo.com'' of
            None \<Rightarrow> st1
          | Some renter \<Rightarrow>
             (let (prop, st2) =
                    (case listRentalPropertiesForLandlord st1 (user_id landlord) of
                       p # rest \<Rightarrow> (Some p, st1)
                     | [] \<Rightarrow> createRentalProperty st1 now (user_id landlord) ''Demo Duplex''
                               ''500 Oak St, Demo City'' ''Reviewing'' 1200)
              in case prop of
                   None \<Rightarrow> st2
                 | Some p \<Rightarrow>
                    (case getActiveLeaseForProperty st2 (rp_id p) of
                       Some activeLease \<Rightarrow> st2
                     | None \<Rightarrow> snd (createLease st2 now (rp_id p) (user_id renter)
                                       (Some startIso) 1 1200 1 1200)))))"

section \<open>The rental routes\<close>

text \<open>
  A route answers with a status and a JSON body, or with a status and
  \<^verbatim>\<open>{ error: message }\<close>. Each handler below takes the database, the clock reading of
  its inserts, \<^verbatim>\<open>req.auth.sub\<close> and the fields of the request, and returns the
  response with the database it leaves.
\<close>

datatype 'a response = Json nat 'a | Error nat string

text \<open>\<^verbatim>\<open>requireRole(neededRole)\<close>: \<open>None\<close> is \<^verbatim>\<open>next()\<close>. A user row without a role
  counts as a renter (\<^verbatim>\<open>rowToUser\<close>).\<close>

definition requireRole :: "string \<Rightarrow> db \<Rightarrow> string \<Rightarrow> (nat \<times> string) option" where
  "requireRole neededRole st sub =
     (case getUserById st sub of
        None \<Rightarrow> Some (403, ''Only '' @ neededRole @ ''s can do this action.'')
      | Some u \<Rightarrow>
          if (if role u = [] then ''renter'' else role u) \<noteq> neededRole
          then Some (403, ''Only '' @ neededRole @ ''s can do this action.'')
          else None)"

text \<open>
  The handler of \<^verbatim>\<open>POST /rentals/payments\<close> (renter: pay against their lease). \<open>val\<close>
  is \<^verbatim>\<open>Number(amount)\<close>.
\<close>

definition post_rentals_payments ::
  "db \<Rightarrow> nat \<Rightarrow> string \<Rightarrow> nat \<Rightarrow> number
     \<Rightarrow> (payment_row option \<times> lease option \<times> payment_row list) response \<times> db" where
  "post_rentals_payments st now sub leaseId val =
     (if \<not> isFinite val \<or> num_le val 0
      then (Error 400 ''Payment amount must be positive.'', st)
      else case getLeaseById st leaseId of
             None \<Rightarrow> (Error 403 ''You can only pay your own lease.'', st)
           | Some lease \<Rightarrow>
               if renter_id lease \<noteq> sub
               then (Error 403 ''You can only pay your own lease.'', st)
               else (let (pay, st') = recordPayment st now leaseId (finite_value val) payment
                     in (Json 201 (pay, getLeaseById st' leaseId, listPaymentsForLease st' leaseId),
                         st')))"

text \<open>
  The handler of \<^verbatim>\<open>PATCH /rentals/leases/:leaseId/balance\<close> (landlord: add a charge or
  a credit). \<open>val\<close> is \<^verbatim>\<open>Number(balance)\<close>; the entry is a charge for
  \<^verbatim>\<open>value > 0\<close> and a credit otherwise.
\<close>

definition patch_rentals_leases_balance ::
  "db \<Rightarrow> nat \<Rightarrow> string \<Rightarrow> nat \<Rightarrow> number \<Rightarrow> lease option response \<times> db" where
  "patch_rentals_leases_balance st now sub leaseId val =
     (if \<not> isFinite val
      then (Error 400 ''Balance must be a number.'', st)
      else case getLeaseById st leaseId of
             None \<Rightarrow> (Error 404 ''Lease not found.'', st)
           | Some lease \<Rightarrow>
              (case getRentalPropertyById st (property_id lease) of
                 None \<Rightarrow> (Error 403 ''You can only update your own leases.'', st)
               | Some property \<Rightarrow>
                   if landlord_id property \<noteq> sub
                   then (Error 403 ''You can only update your own leases.'', st)
                   else (let (updated, st1) = updateLeaseBalance st leaseId (finite_value val);
                             entryType = (if num_gt val 0 then charge else credit);
                             (entry, st2) = recordPayment st1 now leaseId (finite_value val) entryType
                         in (Json 200 updated, st2))))"

text \<open>
  The handler of \<^verbatim>\<open>POST /rentals/leases\<close> (landlord: create a lease for one of their
  properties). A missing \<^verbatim>\<open>propertyId\<close> or \<^verbatim>\<open>renterId\<close> is falsy like 0 and the
  empty string.
\<close>

definition post_rentals_leases ::
  "db \<Rightarrow> nat \<Rightarrow> string \<Rightarrow> nat \<Rightarrow> string \<Rightarrow> string option \<Rightarrow> int \<Rightarrow> number \<Rightarrow> number \<Rightarrow> number
     \<Rightarrow> lease option response \<times> db" where
  "post_rentals_leases st now sub propertyId renterId startDate occupantsCount monthlyRent dueDay
       currentBalance =
     (if propertyId = 0 \<or> renterId = []
      then (Error 400 ''Property and renter are required.'', st)
      else if \<not> isFinite monthlyRent \<or> num_le monthlyRent 0
      then (Error 400 ''Monthly rent must be a positive number.'', st)
      else if \<not> isInteger dueDay \<or> num_lt dueDay 1 \<or> num_gt dueDay 31
      then (Error 400 ''Due day should be a day of the month (1-31).'', st)
      else case getRentalPropertyById st propertyId of
             None \<Rightarrow> (Error 403 ''You can only lease your own properties.'', st)
           | Some property \<Rightarrow>
               if landlord_id property \<noteq> sub
               then (Error 403 ''You can only lease your own properties.'', st)
               else (let (created, st') =
                           createLease st now propertyId renterId startDate occupantsCount
                             (finite_value monthlyRent) (finite_value dueDay)
                             (if isFinite currentBalance then finite_value currentBalance else 0)
                     in (Json 201 created, st')))"

text \<open>The routes as mounted: \<^verbatim>\<open>requireRole\<close> runs before the handler and answers
  by itself, touching nothing, when the role is not the needed one.\<close>

definition route_post_rentals_payments ::
  "db \<Rightarrow> nat \<Rightarrow> string \<Rightarrow> nat \<Rightarrow> number
     \<Rightarrow> (payment_row option \<times> lease option \<times> payment_row list) response \<times> db" where
  "route_post_rentals_payments st now sub leaseId val =
     (case requireRole ''renter'' st sub of
        Some (code, msg) \<Rightarrow> (Error code msg, st)
      | None \<Rightarrow> post_rentals_payments st now sub leaseId val)"

definition route_patch_rentals_leases_balance ::
  "db \<Rightarrow> nat \<Rightarrow> string \<Rightarrow> nat \<Rightarrow> number \<Rightarrow> lease option response \<times> db" where
  "route_patch_rentals_leases_balance st now sub leaseId val =
     (case requireRole ''landlord'' st sub of
        Some (code, msg) \<Rightarrow> (Error code msg, st)
      | None \<Rightarrow> patch_rentals_leases_balance st now sub leaseId val)"

subsection \<open>Commands on the ledger\<close>

text \<open>
  Pay is the payments route; Charge and Credit are the balance route with a positive and
  a negative amount. A command carries the requester, the lease id and the amount; a run
  gives every command the clock reading of its request.
\<close>

datatype command = Pay string nat number | AdjustBalance string nat number

fun step :: "db \<Rightarrow> nat \<times> command \<Rightarrow> db" where
  "step st (now, Pay sub leaseId val) = snd (post_rentals_payments st now sub leaseId val)"
| "step st (now, AdjustBalance sub leaseId val) =
     snd (patch_rentals_leases_balance st now sub leaseId val)"

definition run :: "db \<Rightarrow> (nat \<times> command) list \<Rightarrow> db" where
  "run st cs = foldl step st cs"

text \<open>The effect of an entry on the balance: a payment subtracts its amount, a charge
  and a credit add their signed amount.\<close>

definition effect :: "payment_row \<Rightarrow> rat" where
  "effect p = (if ptype p = payment then - amount p else amount p)"

definition ledger_sum :: "payment_row list \<Rightarrow> nat \<Rightarrow> rat" where
  "ledger_sum es leaseId = sum_list (map effect (filter (\<lambda>p. lease_id p = leaseId) es))"

subsection \<open>Whole amounts\<close>

text \<open>
  The arithmetic of a balance is exact as long as it stays with whole numbers of magnitude
  up to \<open>2^53\<close>. The integer a stored integer stands for (0 for a stored double):
\<close>

primrec int_of_sql :: "sqlnum \<Rightarrow> int" where
  "int_of_sql (SInt i) = i"
| "int_of_sql (SReal d) = 0"

text \<open>Every balance of the database is a stored integer of magnitude at most \<open>B\<close>.\<close>

definition whole_balances :: "int \<Rightarrow> db \<Rightarrow> bool" where
  "whole_balances B st =
     list_all (\<lambda>l. case current_balance l of SInt i \<Rightarrow> \<bar>i\<bar> \<le> B | SReal d \<Rightarrow> False) (leases st)"

text \<open>The amount of a command, when it is finite, is a whole number of magnitude at most
  \<open>A\<close>.\<close>

primrec whole_number :: "int \<Rightarrow> number \<Rightarrow> bool" where
  "whole_number A (Finite a) = (of_int \<lfloor>a\<rfloor> = a \<and> \<bar>a\<bar> \<le> of_int A)"
| "whole_number A NaN = True"
| "whole_number A Infinity = True"
| "whole_number A NegInfinity = True"

fun whole_amount :: "int \<Rightarrow> nat \<times> command \<Rightarrow> bool" where
  "whole_amount A (now, Pay sub leaseId val) = whole_number A val"
| "whole_amount A (now, AdjustBalance sub leaseId val) = whole_number A val"

text \<open>What a lease's balance holds beyond its ledger, for whole balances: the running
  balance minus the sum of the effects of its entries, lease by lease in table order.\<close>

definition offsets :: "db \<Rightarrow> rat list" where
  "offsets st =
     map (\<lambda>l. of_int (int_of_sql (current_balance l)) - ledger_sum (payments st) (l_id l)) (leases st)"

subsection \<open>Names for the rows and tables a successful command writes\<close>

text \<open>The row \<^const>\<open>recordPayment\<close> inserts.\<close>

definition pay_entry :: "db \<Rightarrow> nat \<Rightarrow> nat \<Rightarrow> rat \<Rightarrow> entry_type \<Rightarrow> payment_row" where
  "pay_entry st now leaseId amt ty =
     \<lparr>p_id = next_id (map p_id (payments st)), lease_id = leaseId, amount = amt,
      paid_at = now, ptype = ty\<rparr>"

text \<open>The \<^verbatim>\<open>leases\<close> table after \<^verbatim>\<open>current_balance = current_balance + d\<close> and after
  \<^verbatim>\<open>current_balance = current_balance - d\<close> for one id.\<close>

definition add_balance :: "nat \<Rightarrow> rat \<Rightarrow> lease list \<Rightarrow> lease list" where
  "add_balance leaseId d ls =
     map (\<lambda>l. if l_id l = leaseId then l\<lparr>current_balance := sql_add (current_balance l) d\<rparr> else l) ls"

definition sub_balance :: "nat \<Rightarrow> rat \<Rightarrow> lease list \<Rightarrow> lease list" where
  "sub_balance leaseId d ls =
     map (\<lambda>l. if l_id l = leaseId then l\<lparr>current_balance := sql_sub (current_balance l) d\<rparr> else l) ls"

text \<open>The database after an accepted payment and after an accepted adjustment.\<close>

definition paid_db :: "db \<Rightarrow> nat \<Rightarrow> nat \<Rightarrow> rat \<Rightarrow> db" where
  "paid_db st now leaseId n =
     st\<lparr>payments := payments st @ [pay_entry st now leaseId n payment],
        leases := sub_balance leaseId n (leases st)\<rparr>"

definition adjusted_db :: "db \<Rightarrow> nat \<Rightarrow> nat \<Rightarrow> rat \<Rightarrow> db" where
  "adjusted_db st now leaseId d =
     st\<lparr>leases := add_balance leaseId d (leases st),
        payments := payments st @ [pay_entry st now leaseId d (if 0 < d then charge else credit)]\<rparr>"

text \<open>The row \<^const>\<open>createLease\<close> inserts.\<close>

definition new_lease ::
  "db \<Rightarrow> nat \<Rightarrow> nat \<Rightarrow> string \<Rightarrow> string option \<Rightarrow> int \<Rightarrow> rat \<Rightarrow> rat \<Rightarrow> rat \<Rightarrow> lease" where
  "new_lease st now propertyId renterId startDate occupantsCount monthlyRent dueDay currentBalance =
     \<lparr>l_id = next_id (map l_id (leases st)), property_id = propertyId,
      renter_id = renterId, start_date = (if startDate = Some [] then None else startDate),
      occupants_count = occupantsCount,
      monthly_rent = monthlyRent, due_day = dueDay, current_balance = stored currentBalance,
      is_active = 1, created_at = now\<rparr>"

subsection \<open>The demo data\<close>

text \<open>The database after the bootstrap of a first run, at clock reading 0, with two named
  UUIDs; its lease, property and users are spelled out below.\<close>

definition demo_db :: db where
  "demo_db = ensureDemoRentalData empty_db 0 ''2025-11-01T00:00:00.000Z'' ''landlord-1'' ''renter-1''"

definition demo_lease :: lease where
  "demo_lease = \<lparr>l_id = 1, property_id = 1, renter_id = ''renter-1'',
     start_date = Some ''2025-11-01T00:00:00.000Z'', occupants_count = 1, monthly_rent = 1200,
     due_day = 1, current_balance = SInt 1200, is_active = 1, created_at = 0\<rparr>"

definition demo_property :: rental_property where
  "demo_property = \<lparr>rp_id = 1, landlord_id = ''landlord-1'', title = ''Demo Duplex'',
     address = ''500 Oak St, Demo City'', stage = ''Reviewing'', rp_monthly_rent = 1200,
     rp_created_at = 0\<rparr>"

definition demo_users :: "user list" where
  "demo_users =
     [\<lparr>user_id = ''landlord-1'', email = ''landlord@demo.com'', role = ''landlord'',
       full_name = ''Demo Landlord''\<rparr>,
      \<lparr>user_id = ''renter-1'', email = ''renter@demo.com'', role = ''renter'',
       full_name = ''Demo Renter''\<rparr>]"

text \<open>The demo data with two more accounts, a second renter and a second landlord.\<close>

definition more_users :: "user list" where
  "more_users =
     [\<lparr>user_id = ''renter-2'', email = ''renter2@demo.com'', role = ''renter'',
       full_name = ''Second Renter''\<rparr>,
      \<lparr>user_id = ''landlord-2'', email = ''landlord2@demo.com'', role = ''landlord'',
       full_name = ''Second Landlord''\<rparr>]"

definition demo_db2 :: db where
  "demo_db2 = demo_db\<lparr>users := users demo_db @ more_users\<rparr>"


section \<open>The portals\<close>

subsection \<open>Landlord portal\<close>

text \<open>
  \<^verbatim>\<open>GET /rentals/properties\<close> sends each property of the landlord with its active lease
  attached (\<^verbatim>\<open>activeLease: lease || null\<close>).
\<close>

record unit_row =
  u_id :: nat
  activeLease :: "lease option"

definition get_rentals_properties :: "db \<Rightarrow> string \<Rightarrow> unit_row list" where
  "get_rentals_properties st sub =
     map (\<lambda>prop. \<lparr>u_id = rp_id prop, activeLease = getActiveLeaseForProperty st (rp_id prop)\<rparr>)
       (listRentalPropertiesForLandlord st sub)"

text \<open>The numbers of a lease reach a portal as JSON, the balance as
  \<^const>\<open>json_number\<close> of the stored one. \<^verbatim>\<open>stats.paid\<close>, the number under the tile "Paid this month":
  \<^verbatim>\<open>lease ? Number(lease.current_balance) <= 0 : false\<close>.\<close>

definition stats_paid :: "unit_row list \<Rightarrow> nat" where
  "stats_paid properties =
     length (filter (\<lambda>p. case activeLease p of
                             Some lease \<Rightarrow> json_number (current_balance lease) \<le> 0
                           | None \<Rightarrow> False) properties)"

text \<open>
  \<^verbatim>\<open>paidThisMonth\<close> of a unit's card, the pill "This month: Paid / Not paid". The lease
  is \<^verbatim>\<open>prop.activeLease || leases.find((l) => l.property_id === prop.id)\<close>; the source
  comments "Mark paid if the balance is at or below the monthly due".
\<close>

definition card_paidThisMonth :: "lease list \<Rightarrow> unit_row \<Rightarrow> bool" where
  "card_paidThisMonth leasesRes prop =
     (let lease = (case activeLease prop of
                     Some l \<Rightarrow> Some l
                   | None \<Rightarrow> find (\<lambda>l. property_id l = u_id prop) leasesRes)
      in case lease of
           None \<Rightarrow> False
         | Some l \<Rightarrow> (let balance = json_number (current_balance l); monthlyRent = monthly_rent l
                      in balance \<le> monthlyRent))"

subsection \<open>Renter portal\<close>

text \<open>The part of the renter's \<^verbatim>\<open>profile\<close> state the status is read from.\<close>

record profile =
  balance :: rat
  monthlyRent :: rat
  paidThisMonth :: bool

text \<open>\<^verbatim>\<open>demoRenterProfile\<close>, the profile before the lease has loaded.\<close>

definition demoRenterProfile :: profile where
  "demoRenterProfile = \<lparr>balance = 1200, monthlyRent = 1200, paidThisMonth = False\<rparr>"

text \<open>The profile after \<^verbatim>\<open>getRenterLease\<close> has answered: \<^verbatim>\<open>monthlyRent: monthly ||
  prev.monthlyRent || 0\<close> and \<^verbatim>\<open>paidThisMonth: monthly ? balance <= monthly : balance <=
  0\<close>.\<close>

definition profile_loaded :: "profile \<Rightarrow> lease \<Rightarrow> profile" where
  "profile_loaded prev lease =
     (let bal = json_number (current_balance lease); monthly = monthly_rent lease
      in prev\<lparr>balance := bal,
              monthlyRent := (if monthly \<noteq> 0 then monthly else monthlyRent prev),
              paidThisMonth := (if monthly \<noteq> 0 then bal \<le> monthly else bal \<le> 0)\<rparr>)"

text \<open>The profile after \<^verbatim>\<open>handleConfirmPayment\<close> got the updated lease.\<close>

definition profile_paid :: "profile \<Rightarrow> lease \<Rightarrow> profile" where
  "profile_paid prev lease =
     (let bal = json_number (current_balance lease); monthly = monthly_rent lease
      in prev\<lparr>balance := bal,
              paidThisMonth := (if monthly \<noteq> 0 then bal \<le> monthly else bal \<le> 0)\<rparr>)"

text \<open>The two values the dashboard derives at each render: \<^verbatim>\<open>paidThisMonth\<close> (pill
  "Payment received / Payment pending") and \<^verbatim>\<open>balanceOverdue\<close> (the nudge "Balance
  overdue").\<close>

definition render_paidThisMonth :: "profile \<Rightarrow> bool" where
  "render_paidThisMonth pf =
     (let currentBalance = balance pf; rent = monthlyRent pf
      in if rent \<noteq> 0 then currentBalance \<le> rent else currentBalance \<le> 0)"

definition balanceOverdue :: "profile \<Rightarrow> bool" where
  "balanceOverdue pf =
     (let currentBalance = balance pf; rent = monthlyRent pf
      in if rent \<noteq> 0 then currentBalance > rent else currentBalance > 0)"

subsection \<open>The renter's ledger\<close>

text \<open>An item of \<^verbatim>\<open>paymentHistory\<close>.\<close>

record ledger_item =
  li_id :: nat
  li_date :: nat
  li_amount :: rat
  li_method :: string
  li_note :: string
  li_type :: entry_type

text \<open>The mapping of the rows of \<^verbatim>\<open>getRenterLease\<close> and the one of
  \<^verbatim>\<open>handleConfirmPayment\<close>, which names the method by \<^verbatim>\<open>methodLabel\<close>.\<close>

definition item_loaded :: "payment_row \<Rightarrow> ledger_item" where
  "item_loaded p =
     \<lparr>li_id = p_id p, li_date = paid_at p, li_amount = amount p,
      li_method = (if ptype p = charge then ''Due amount'' else ''Online payment''),
      li_note = (if ptype p = charge \<or> ptype p = credit then ''Posted by landlord'' else ''Paid by you''),
      li_type = ptype p\<rparr>"

definition item_paid :: "string \<Rightarrow> payment_row \<Rightarrow> ledger_item" where
  "item_paid methodLabel p =
     \<lparr>li_id = p_id p, li_date = paid_at p, li_amount = amount p,
      li_method = (if ptype p = charge then ''Due amount'' else methodLabel),
      li_note = (if ptype p = charge \<or> ptype p = credit then ''Posted by landlord'' else ''Paid by you''),
      li_type = ptype p\<rparr>"

text \<open>\<^verbatim>\<open>formatMoney\<close>, with the platform's \<^verbatim>\<open>toLocaleString\<close> as a parameter.\<close>

definition formatMoney :: "(rat \<Rightarrow> string) \<Rightarrow> rat \<Rightarrow> string" where
  "formatMoney toLocaleString v = ''$'' @ toLocaleString v"

definition formatLedgerAmount :: "(rat \<Rightarrow> string) \<Rightarrow> ledger_item \<Rightarrow> string" where
  "formatLedgerAmount toLocaleString entry =
     (let a = \<bar>li_amount entry\<bar>;
          prefix = (if li_type entry = charge then ''+'' else ''-'')
      in prefix @ formatMoney toLocaleString a)"

definition ledgerLabel :: "ledger_item \<Rightarrow> string" where
  "ledgerLabel entry =
     (if li_type entry = charge then ''Rent issued''
      else if li_type entry = credit then ''Credited on''
      else ''Paid on'')"

section \<open>Facts about the arithmetic\<close>

text \<open>Rounding to a double leaves every whole number of magnitude up to \<open>2^53\<close> as it is, so
  on such numbers the sums and differences of SQLite are the exact ones.\<close>

lemma round_half_even_int: "round_half_even (of_int z) = z"
  by (simp add: round_half_even_def)

lemma ilog2_int:
  assumes "0 < n"
  shows "ilog2 (of_int n) = bitlen n - 1"
proof -
  from assms have b: "1 \<le> bitlen n"
    by (simp add: bitlen_alt_def)
  have "bitlen 1 = 1" by (simp add: bitlen_alt_def)
  moreover from bitlen_bounds[OF assms] have "(2::int) ^ nat (bitlen n - 1) \<le> n" by simp
  then have "(of_int ((2::int) ^ nat (bitlen n - 1)) :: rat) \<le> of_int n"
    by (simp only: of_int_le_iff)
  then have "(2::rat) powi (bitlen n - 1) \<le> of_int n"
    using b by (simp add: power_int_def)
  ultimately show ?thesis
    by (simp add: ilog2_def)
qed

lemma bitlen_le_54:
  assumes "0 < n" "n \<le> 2 ^ 53"
  shows "bitlen n \<le> 54"
proof (rule ccontr)
  assume "\<not> bitlen n \<le> 54"
  then have "54 \<le> nat (bitlen n - 1)" by simp
  then have "(2::int) ^ 54 \<le> 2 ^ nat (bitlen n - 1)"
    by (intro power_increasing) simp_all
  also from bitlen_bounds[OF assms(1)] have "\<dots> \<le> n" by simp
  finally show False using assms(2) by simp
qed

lemma fl_nat_exact:
  assumes "0 < n" "n \<le> 2 ^ 53"
  shows "fl (of_int n) = Dbl (of_int n)" and "fl (- of_int n) = Dbl (- of_int n)"
proof -
  define c where "c = bitlen n - 1"
  from assms(1) have c0: "0 \<le> c" by (simp add: c_def bitlen_alt_def)
  from bitlen_le_54[OF assms] have c53: "c \<le> 53" by (simp add: c_def)
  have lo: "(2::int) ^ nat c \<le> n"
    using bitlen_bounds[OF assms(1)] by (simp add: c_def)
  have "\<exists>z. (of_int n :: rat) / 2 powi (c - 52) = of_int z"
  proof (cases "c \<le> 52")
    case True
    then have "(2::rat) powi (c - 52) = inverse (2 ^ nat (52 - c))"
      by (cases "c = 52") (simp_all add: power_int_def power_one_over inverse_eq_divide)
    then have "(of_int n :: rat) / 2 powi (c - 52) = of_int (n * 2 ^ nat (52 - c))"
      by (simp add: field_simps)
    then show ?thesis by blast
  next
    case False
    with c53 have c: "c = 53" by simp
    with lo assms(2) have "n = 2 ^ 53" by simp
    with c have "(of_int n :: rat) / 2 powi (c - 52) = of_int (2 ^ 52)" by simp
    then show ?thesis by blast
  qed
  then obtain z where z: "(of_int n :: rat) / 2 powi (c - 52) = of_int z" by blast
  have u0: "(2::rat) powi (c - 52) \<noteq> 0" by simp
  from z u0 have zu: "of_int z * 2 powi (c - 52) = (of_int n :: rat)"
    by (metis nonzero_divide_eq_eq)
  have small: "\<not> (2::rat) ^ 1024 \<le> of_int n"
  proof -
    from assms(2) have "(of_int n :: rat) \<le> of_int (2 ^ 53)" by (simp only: of_int_le_iff)
    then have "(of_int n :: rat) \<le> 2 ^ 53" by simp
    moreover have "(2::rat) ^ 53 < 2 ^ 1024" by (intro power_strict_increasing) simp_all
    ultimately show ?thesis by simp
  qed
  have il: "ilog2 (of_int n) = c" using ilog2_int[OF assms(1)] by (simp add: c_def)
  have m: "max c (- 1022) = c" using c0 by simp
  from assms(1) have n0: "(of_int n :: rat) \<noteq> 0" "(of_int n :: rat) > 0" "\<not> (of_int n :: rat) < 0" by simp_all
  show "fl (of_int n) = Dbl (of_int n)"
    using n0 small by (simp add: fl_def il m z round_half_even_int zu Let_def)
  show "fl (- of_int n) = Dbl (- of_int n)"
    using n0 small by (simp add: fl_def il m z round_half_even_int zu Let_def)
qed

lemma fl_int_exact:
  assumes "\<bar>n\<bar> \<le> 2 ^ 53"
  shows "fl (of_int n) = Dbl (of_int n)"
proof (cases "n = 0")
  case True
  then show ?thesis by (simp add: fl_def)
next
  case False
  show ?thesis
  proof (cases "0 < n")
    case True
    with assms show ?thesis by (intro fl_nat_exact) simp_all
  next
    case neg: False
    with False assms have "0 < - n" "- n \<le> 2 ^ 53" by simp_all
    from fl_nat_exact(2)[OF this] show ?thesis by simp
  qed
qed

lemma sql_add_int_exact:
  assumes "\<bar>i\<bar> \<le> 2 ^ 53" "\<bar>i + a\<bar> \<le> 2 ^ 53"
  shows "sql_add (SInt i) (of_int a) = SInt (i + a)"
proof (cases "is_int32 (of_int a) \<and> in_int64 (i + a)")
  case True
  then show ?thesis by (simp add: sql_add_def)
next
  case False
  have "(of_int i :: rat) + of_int a = of_int (i + a)" by simp
  then have "dadd (fl (of_int i)) (of_int a) = Dbl (of_int (i + a))"
    using fl_int_exact[OF assms(1)] fl_int_exact[OF assms(2)] by simp
  moreover have "affinity (Dbl (of_int (i + a))) = SInt (i + a)"
  proof -
    from assms(2) have "- (2 ^ 53) \<le> i + a" "i + a \<le> 2 ^ 53" by simp_all
    then have "- (2 ^ 63) < i + a" "i + a < 2 ^ 63" by simp_all
    then have "(of_int (- (2 ^ 63)) :: rat) < of_int (i + a)" "(of_int (i + a) :: rat) < of_int (2 ^ 63)"
      by (simp_all only: of_int_less_iff)
    then show ?thesis by simp
  qed
  ultimately show ?thesis using False by (simp add: sql_add_def)
qed

lemma sql_sub_int_exact:
  assumes "\<bar>i\<bar> \<le> 2 ^ 53" "\<bar>i - a\<bar> \<le> 2 ^ 53"
  shows "sql_sub (SInt i) (of_int a) = SInt (i - a)"
proof (cases "is_int32 (of_int a) \<and> in_int64 (i - a)")
  case True
  then show ?thesis by (simp add: sql_sub_def)
next
  case False
  have "(of_int i :: rat) + - of_int a = of_int (i - a)" by simp
  then have "dadd (fl (of_int i)) (- of_int a) = Dbl (of_int (i - a))"
    using fl_int_exact[OF assms(1)] fl_int_exact[OF assms(2)] by simp
  moreover have "affinity (Dbl (of_int (i - a))) = SInt (i - a)"
  proof -
    from assms(2) have "- (2 ^ 53) \<le> i - a" "i - a \<le> 2 ^ 53" by simp_all
    then have "- (2 ^ 63) < i - a" "i - a < 2 ^ 63" by simp_all
    then have "(of_int (- (2 ^ 63)) :: rat) < of_int (i - a)" "(of_int (i - a) :: rat) < of_int (2 ^ 63)"
      by (simp_all only: of_int_less_iff)
    then show ?thesis by simp
  qed
  ultimately show ?thesis using False by (simp add: sql_sub_def)
qed

lemma stored_int:
  assumes "\<bar>i\<bar> < 2 ^ 63"
  shows "stored (of_int i) = SInt i"
proof -
  from assms have "- (2 ^ 63) < i" "i < 2 ^ 63" by simp_all
  then have "(of_int (- (2 ^ 63)) :: rat) < of_int i" "(of_int i :: rat) < of_int (2 ^ 63)"
    by (simp_all only: of_int_less_iff)
  then show ?thesis by (simp add: stored_def)
qed

section \<open>Facts about the tables\<close>

subsection \<open>Fresh ids and the latest row\<close>

text \<open>The id of a new row is above every id of the table, so the row read back by
  \<^verbatim>\<open>ORDER BY id DESC LIMIT 1\<close> after an insert is the row inserted.\<close>

lemma fold_max_ge: "a \<le> fold max ids (a::nat)"
proof (induction ids arbitrary: a)
  case Nil
  then show ?case by simp
next
  case (Cons x xs)
  have "a \<le> max x a" by simp
  also have "\<dots> \<le> fold max xs (max x a)" by (rule Cons.IH)
  finally show ?case by simp
qed

lemma fold_max_mem: "i \<in> set ids \<Longrightarrow> i \<le> fold max ids (a::nat)"
proof (induction ids arbitrary: a)
  case Nil
  then show ?case by simp
next
  case (Cons x xs)
  show ?case
  proof (cases "i = x")
    case True
    have "max x a \<le> fold max xs (max x a)" by (rule fold_max_ge)
    with True show ?thesis by simp
  next
    case False
    with Cons show ?thesis by simp
  qed
qed

lemma next_id_fresh: "i \<in> set ids \<Longrightarrow> i < next_id ids"
  unfolding next_id_def using fold_max_mem[of i ids 0] by simp

lemma first_desc_snoc:
  "\<forall>y \<in> set xs. k y < k x \<Longrightarrow> first_desc k (xs @ [x]) = Some x"
  by (induction xs) (auto split: option.splits)

lemma first_desc_filter_snoc:
  "P x \<Longrightarrow> \<forall>y \<in> set xs. k y < k x \<Longrightarrow> first_desc k (filter P (xs @ [x])) = Some x"
  using first_desc_snoc[of "filter P xs" k x] by simp

lemma find_fresh_snoc:
  "\<forall>y \<in> set ls. l_id y < l_id l \<Longrightarrow> find (\<lambda>x. l_id x = l_id l) (ls @ [l]) = Some l"
  by (induction ls) auto

subsection \<open>Ordered lists\<close>





subsection \<open>The writes, in closed form\<close>

lemma recordPayment_eq:
  "recordPayment st now leaseId amt ty =
     (Some (pay_entry st now leaseId amt ty),
      st\<lparr>payments := payments st @ [pay_entry st now leaseId amt ty],
         leases := (if ty = payment then sub_balance leaseId amt (leases st) else leases st)\<rparr>)"
proof -
  have fresh: "\<forall>y \<in> set (payments st). p_id y < p_id (pay_entry st now leaseId amt ty)"
    by (auto simp: pay_entry_def intro!: next_id_fresh)
  have "first_desc p_id (filter (\<lambda>p. lease_id p = leaseId)
          (payments st @ [pay_entry st now leaseId amt ty])) = Some (pay_entry st now leaseId amt ty)"
    using fresh by (intro first_desc_filter_snoc) (simp_all add: pay_entry_def)
  then show ?thesis
    by (auto simp: recordPayment_def Let_def pay_entry_def sub_balance_def)
qed

lemma getLeaseById_add_balance:
  "find (\<lambda>l. l_id l = j) (add_balance i d ls) =
     (if j = i
      then map_option (\<lambda>l. l\<lparr>current_balance := sql_add (current_balance l) d\<rparr>)
             (find (\<lambda>l. l_id l = j) ls)
      else find (\<lambda>l. l_id l = j) ls)"
  by (induction ls) (auto simp: add_balance_def)

lemma getLeaseById_sub_balance:
  "find (\<lambda>l. l_id l = j) (sub_balance i d ls) =
     (if j = i
      then map_option (\<lambda>l. l\<lparr>current_balance := sql_sub (current_balance l) d\<rparr>)
             (find (\<lambda>l. l_id l = j) ls)
      else find (\<lambda>l. l_id l = j) ls)"
  by (induction ls) (auto simp: sub_balance_def)

lemma updateLeaseBalance_eq:
  "updateLeaseBalance st leaseId d =
     (map_option (\<lambda>l. l\<lparr>current_balance := sql_add (current_balance l) d\<rparr>) (getLeaseById st leaseId),
      st\<lparr>leases := add_balance leaseId d (leases st)\<rparr>)"
  using getLeaseById_add_balance[of leaseId leaseId d "leases st"]
  by (simp add: updateLeaseBalance_def Let_def getLeaseById_def add_balance_def)

lemma createLease_eq:
  "createLease st now propertyId renterId startDate occ rent due bal =
     (Some (new_lease st now propertyId renterId startDate occ rent due bal),
      st\<lparr>leases := leases st @
        [new_lease st now propertyId renterId startDate occ rent due bal]\<rparr>)"
proof -
  let ?l = "new_lease st now propertyId renterId startDate occ rent due bal"
  have fresh: "\<forall>y \<in> set (leases st). l_id y < l_id ?l"
    by (auto simp: new_lease_def intro!: next_id_fresh)
  have "first_desc l_id (filter (\<lambda>l. property_id l = propertyId) (leases st @ [?l])) = Some ?l"
    using fresh by (intro first_desc_filter_snoc) (simp_all add: new_lease_def)
  then show ?thesis
    by (simp add: createLease_def Let_def new_lease_def)
qed

lemma new_lease_active_lookup:
  "getActiveLeaseForProperty
     (st\<lparr>leases := leases st @ [new_lease st now propertyId renterId startDate occ rent due b]\<rparr>)
     propertyId
   = Some (new_lease st now propertyId renterId startDate occ rent due b)"
proof -
  let ?l = "new_lease st now propertyId renterId startDate occ rent due b"
  have fresh: "\<forall>y \<in> set (leases st). l_id y < l_id ?l"
    by (auto simp: new_lease_def intro!: next_id_fresh)
  have "first_desc l_id (filter (\<lambda>l. property_id l = propertyId \<and> is_active l = 1) (leases st @ [?l]))
      = Some ?l"
    using fresh by (intro first_desc_filter_snoc) (simp_all add: new_lease_def)
  then show ?thesis by (simp add: getActiveLeaseForProperty_def)
qed

lemma new_lease_lookup:
  "getLeaseById
     (st\<lparr>leases := leases st @ [new_lease st now propertyId renterId startDate occ rent due b]\<rparr>)
     (l_id (new_lease st now propertyId renterId startDate occ rent due b))
   = Some (new_lease st now propertyId renterId startDate occ rent due b)"
proof -
  let ?l = "new_lease st now propertyId renterId startDate occ rent due b"
  have fresh: "\<forall>y \<in> set (leases st). l_id y < l_id ?l"
    by (auto simp: new_lease_def intro!: next_id_fresh)
  then show ?thesis by (simp add: getLeaseById_def find_fresh_snoc)
qed

section \<open>Facts about the routes\<close>

subsection \<open>Every branch of the payments handler\<close>

lemma pay_invalid:
  "\<not> isFinite val \<or> num_le val 0 \<Longrightarrow>
     post_rentals_payments st now sub leaseId val = (Error 400 ''Payment amount must be positive.'', st)"
  by (simp add: post_rentals_payments_def)

lemma pay_unknown:
  "0 < n \<Longrightarrow> getLeaseById st leaseId = None \<Longrightarrow>
     post_rentals_payments st now sub leaseId (Finite n) = (Error 403 ''You can only pay your own lease.'', st)"
  by (simp add: post_rentals_payments_def)

lemma pay_forbidden:
  "0 < n \<Longrightarrow> getLeaseById st leaseId = Some lease \<Longrightarrow> renter_id lease \<noteq> sub \<Longrightarrow>
     post_rentals_payments st now sub leaseId (Finite n) = (Error 403 ''You can only pay your own lease.'', st)"
  by (simp add: post_rentals_payments_def)

lemma pay_ok:
  assumes "0 < n" "getLeaseById st leaseId = Some lease" "renter_id lease = sub"
  shows "post_rentals_payments st now sub leaseId (Finite n) =
     (Json 201 (Some (pay_entry st now leaseId n payment),
                Some (lease\<lparr>current_balance := sql_sub (current_balance lease) n\<rparr>),
                listPaymentsForLease (paid_db st now leaseId n) leaseId),
      paid_db st now leaseId n)"
  using assms getLeaseById_sub_balance[of leaseId leaseId n "leases st"]
  by (simp add: post_rentals_payments_def recordPayment_eq paid_db_def getLeaseById_def)

lemma pay_cases:
  "snd (post_rentals_payments st now sub i val) = st \<or>
   (\<exists>n. 0 < n \<and> val = Finite n \<and> snd (post_rentals_payments st now sub i val) = paid_db st now i n)"
proof (cases "\<not> isFinite val \<or> num_le val 0")
  case True
  then show ?thesis by (simp add: pay_invalid)
next
  case False
  then obtain n where n: "val = Finite n" "0 < n" by (cases val) auto
  show ?thesis
  proof (cases "getLeaseById st i")
    case None
    with n show ?thesis by (simp add: pay_unknown)
  next
    case (Some lease)
    show ?thesis
    proof (cases "renter_id lease = sub")
      case True
      with n Some show ?thesis by (simp add: pay_ok)
    next
      case False
      with n Some show ?thesis by (simp add: pay_forbidden)
    qed
  qed
qed


lemma pay_rejected_unless_renter:
  assumes "map_option renter_id (getLeaseById st leaseId) \<noteq> Some sub"
  shows "post_rentals_payments st now sub leaseId val =
     (if isFinite val \<and> num_gt val 0 then Error 403 ''You can only pay your own lease.''
      else Error 400 ''Payment amount must be positive.'', st)"
proof (cases val)
  case (Finite n)
  show ?thesis
  proof (cases "0 < n")
    case True
    show ?thesis
    proof (cases "getLeaseById st leaseId")
      case None
      with True Finite show ?thesis by (simp add: pay_unknown)
    next
      case (Some lease)
      with assms have "renter_id lease \<noteq> sub" by simp
      with True Finite Some show ?thesis by (simp add: pay_forbidden)
    qed
  next
    case False
    with Finite show ?thesis by (simp add: pay_invalid)
  qed
qed (simp_all add: pay_invalid)

subsection \<open>Every branch of the balance handler\<close>

lemma adjust_invalid:
  "\<not> isFinite val \<Longrightarrow>
     patch_rentals_leases_balance st now sub leaseId val = (Error 400 ''Balance must be a number.'', st)"
  by (simp add: patch_rentals_leases_balance_def)

lemma adjust_unknown:
  "getLeaseById st leaseId = None \<Longrightarrow>
     patch_rentals_leases_balance st now sub leaseId (Finite d) = (Error 404 ''Lease not found.'', st)"
  by (simp add: patch_rentals_leases_balance_def)

lemma adjust_forbidden:
  "getLeaseById st leaseId = Some lease \<Longrightarrow>
   getRentalPropertyById st (property_id lease) = None \<or>
   (\<exists>p. getRentalPropertyById st (property_id lease) = Some p \<and> landlord_id p \<noteq> sub) \<Longrightarrow>
     patch_rentals_leases_balance st now sub leaseId (Finite d) =
       (Error 403 ''You can only update your own leases.'', st)"
  by (auto simp add: patch_rentals_leases_balance_def)

lemma adjust_ok:
  assumes "getLeaseById st leaseId = Some lease"
    "getRentalPropertyById st (property_id lease) = Some property" "landlord_id property = sub"
  shows "patch_rentals_leases_balance st now sub leaseId (Finite d) =
     (Json 200 (Some (lease\<lparr>current_balance := sql_add (current_balance lease) d\<rparr>)),
      adjusted_db st now leaseId d)"
  using assms
  by (simp add: patch_rentals_leases_balance_def updateLeaseBalance_eq recordPayment_eq
      adjusted_db_def pay_entry_def)

lemma adjust_cases:
  "snd (patch_rentals_leases_balance st now sub i val) = st \<or>
   (\<exists>d. val = Finite d \<and> snd (patch_rentals_leases_balance st now sub i val) = adjusted_db st now i d)"
proof (cases val)
  case (Finite d)
  show ?thesis
  proof (cases "getLeaseById st i")
    case None
    with Finite show ?thesis by (simp add: adjust_unknown)
  next
    case (Some lease)
    show ?thesis
    proof (cases "getRentalPropertyById st (property_id lease)")
      case None
      with Finite Some show ?thesis by (simp add: adjust_forbidden)
    next
      case (Some property)
      note P = this
      show ?thesis
      proof (cases "landlord_id property = sub")
        case True
        with Finite \<open>getLeaseById st i = Some lease\<close> P show ?thesis by (simp add: adjust_ok)
      next
        case False
        with Finite \<open>getLeaseById st i = Some lease\<close> P show ?thesis by (simp add: adjust_forbidden)
      qed
    qed
  qed
qed (simp_all add: adjust_invalid)


lemma adjust_rejected_unless_owner:
  assumes "getLeaseById st leaseId = Some lease"
    and "map_option landlord_id (getRentalPropertyById st (property_id lease)) \<noteq> Some sub"
  shows "patch_rentals_leases_balance st now sub leaseId val =
     (if isFinite val then Error 403 ''You can only update your own leases.''
      else Error 400 ''Balance must be a number.'', st)"
proof (cases val)
  case (Finite d)
  from assms(2) have "getRentalPropertyById st (property_id lease) = None \<or>
     (\<exists>p. getRentalPropertyById st (property_id lease) = Some p \<and> landlord_id p \<noteq> sub)"
    by (cases "getRentalPropertyById st (property_id lease)") simp_all
  with assms(1) Finite show ?thesis by (simp add: adjust_forbidden)
qed (simp_all add: adjust_invalid)

lemma adjust_rejected_unknown:
  assumes "getLeaseById st leaseId = None"
  shows "patch_rentals_leases_balance st now sub leaseId val =
     (if isFinite val then Error 404 ''Lease not found.''
      else Error 400 ''Balance must be a number.'', st)"
  using assms by (cases val) (simp_all add: adjust_unknown adjust_invalid)

subsection \<open>The lease route on a valid request\<close>

lemma post_leases_ok:
  assumes "propertyId \<noteq> 0" "renterId \<noteq> []" "0 < rent" "1 \<le> due" "due \<le> 31"
    and "getRentalPropertyById st propertyId = Some property" "landlord_id property = sub"
  shows "post_rentals_leases st now sub propertyId renterId startDate occ (Finite rent)
           (Finite (of_int due)) bal =
     (Json 201 (Some (new_lease st now propertyId renterId startDate occ rent (of_int due)
                        (if isFinite bal then finite_value bal else 0))),
      st\<lparr>leases := leases st @
        [new_lease st now propertyId renterId startDate occ rent (of_int due)
           (if isFinite bal then finite_value bal else 0)]\<rparr>)"
proof -
  from assms(4,5) have "(1::rat) \<le> of_int due" "(of_int due :: rat) \<le> 31"
    by simp_all
  with assms show ?thesis
    by (simp add: post_rentals_leases_def createLease_eq)
qed

text \<open>A due day with a fractional part is rejected.\<close>

lemma post_leases_fractional_due:
  assumes "propertyId \<noteq> 0" "renterId \<noteq> []" "0 < rent" "of_int \<lfloor>dueDay\<rfloor> \<noteq> dueDay"
  shows "post_rentals_leases st now sub propertyId renterId startDate occ (Finite rent)
           (Finite dueDay) bal =
     (Error 400 ''Due day should be a day of the month (1-31).'', st)"
  using assms by (simp add: post_rentals_leases_def)

subsection \<open>The role check only filters\<close>

text \<open>A mounted route either answers 403 from \<^const>\<open>requireRole\<close> and leaves the database as
  it was, or it is its handler.\<close>

lemma requireRole_only_filters:
  "(route_post_rentals_payments st now sub leaseId val = post_rentals_payments st now sub leaseId val \<or>
    (\<exists>msg. route_post_rentals_payments st now sub leaseId val = (Error 403 msg, st))) \<and>
   (route_patch_rentals_leases_balance st now sub leaseId val =
      patch_rentals_leases_balance st now sub leaseId val \<or>
    (\<exists>msg. route_patch_rentals_leases_balance st now sub leaseId val = (Error 403 msg, st)))"
  by (auto simp: route_post_rentals_payments_def route_patch_rentals_leases_balance_def
      requireRole_def split: option.splits)

lemma route_is_handler:
  assumes "getUserById st sub = Some u"
  shows "role u = ''renter'' \<Longrightarrow>
           route_post_rentals_payments st now sub leaseId val = post_rentals_payments st now sub leaseId val"
    and "role u = ''landlord'' \<Longrightarrow>
           route_patch_rentals_leases_balance st now sub leaseId val =
             patch_rentals_leases_balance st now sub leaseId val"
  using assms
  by (simp_all add: route_post_rentals_payments_def route_patch_rentals_leases_balance_def
      requireRole_def)

section \<open>Facts about runs of commands\<close>

text \<open>The ids of the leases stay as they are and entries are only appended.\<close>

lemma ledger_sum_snoc:
  "ledger_sum (es @ [e]) i = ledger_sum es i + (if lease_id e = i then effect e else 0)"
  by (simp add: ledger_sum_def)

lemma ledger_sum_append: "ledger_sum (a @ b) i = ledger_sum a i + ledger_sum b i"
  by (simp add: ledger_sum_def)

lemma ids_add_balance: "map l_id (add_balance i d ls) = map l_id ls"
  by (induction ls) (simp_all add: add_balance_def)

lemma ids_sub_balance: "map l_id (sub_balance i d ls) = map l_id ls"
  by (induction ls) (simp_all add: sub_balance_def)

lemma ids_step: "map l_id (leases (step st tc)) = map l_id (leases st)"
proof (cases tc)
  case (Pair now c)
  show ?thesis
  proof (cases c)
    case (Pay sub i val)
    with Pair pay_cases[of st now sub i val] show ?thesis
      by (auto simp: paid_db_def ids_sub_balance)
  next
    case (AdjustBalance sub i val)
    with Pair adjust_cases[of st now sub i val] show ?thesis
      by (auto simp: adjusted_db_def ids_add_balance)
  qed
qed

lemma ids_run: "map l_id (leases (run st cs)) = map l_id (leases st)"
  unfolding run_def by (induction cs arbitrary: st) (simp_all add: ids_step)

lemma step_payments:
  "\<exists>es. payments (step st tc) = payments st @ es \<and>
     (\<forall>e \<in> set es. (ptype e = payment \<longrightarrow> 0 < amount e) \<and> (ptype e = charge \<longrightarrow> 0 < amount e) \<and>
                     (ptype e = credit \<longrightarrow> amount e \<le> 0))"
proof (cases tc)
  case (Pair now c)
  show ?thesis
  proof (cases c)
    case (Pay sub i val)
    from pay_cases[of st now sub i val] show ?thesis
    proof
      assume "snd (post_rentals_payments st now sub i val) = st"
      with Pair Pay have "payments (step st tc) = payments st @ []" by simp
      then show ?thesis by fastforce
    next
      assume "\<exists>n. 0 < n \<and> val = Finite n \<and> snd (post_rentals_payments st now sub i val) = paid_db st now i n"
      then obtain n where n: "0 < n" "snd (post_rentals_payments st now sub i val) = paid_db st now i n"
        by blast
      with Pair Pay have "payments (step st tc) = payments st @ [pay_entry st now i n payment]"
        by (simp add: paid_db_def)
      moreover have "amount (pay_entry st now i n payment) = n" "ptype (pay_entry st now i n payment) = payment"
        by (simp_all add: pay_entry_def)
      ultimately show ?thesis using n(1) by fastforce
    qed
  next
    case (AdjustBalance sub i val)
    from adjust_cases[of st now sub i val] show ?thesis
    proof
      assume "snd (patch_rentals_leases_balance st now sub i val) = st"
      with Pair AdjustBalance have "payments (step st tc) = payments st @ []" by simp
      then show ?thesis by fastforce
    next
      assume "\<exists>d. val = Finite d \<and> snd (patch_rentals_leases_balance st now sub i val) = adjusted_db st now i d"
      then obtain d where d: "snd (patch_rentals_leases_balance st now sub i val) = adjusted_db st now i d"
        by blast
      let ?e = "pay_entry st now i d (if 0 < d then charge else credit)"
      from d Pair AdjustBalance have "payments (step st tc) = payments st @ [?e]"
        by (simp add: adjusted_db_def)
      moreover have "amount ?e = d" "ptype ?e = (if 0 < d then charge else credit)"
        by (simp_all add: pay_entry_def)
      ultimately show ?thesis by fastforce
    qed
  qed
qed

lemma run_snoc: "run st (cs @ [tc]) = step (run st cs) tc"
  by (simp add: run_def)

lemma run_appends: "\<exists>es. payments (run st cs) = payments st @ es"
proof (induction cs rule: rev_induct)
  case Nil
  have "payments (run st []) = payments st @ []" by (simp add: run_def)
  then show ?case by blast
next
  case (snoc tc cs)
  then obtain es where "payments (run st cs) = payments st @ es" by blast
  moreover from step_payments[of "run st cs" tc] obtain es' where
    "payments (step (run st cs) tc) = payments (run st cs) @ es'" by blast
  ultimately have "payments (run st (cs @ [tc])) = payments st @ (es @ es')"
    by (simp add: run_snoc)
  then show ?case by blast
qed

text \<open>
  As long as the balances are whole and stay within \<open>2^53\<close>, an accepted command moves the
  balance of its lease and the ledger sum of that lease by the same amount, so
  \<^const>\<open>offsets\<close> does not change.
\<close>

lemma find_in_set: "find P xs = Some x \<Longrightarrow> x \<in> set xs"
  by (induction xs) (auto split: if_splits)

lemma whole_number_int:
  assumes "whole_number A (Finite n)"
  shows "\<exists>a. n = of_int a \<and> \<bar>a\<bar> \<le> A"
proof -
  from assms have n: "of_int \<lfloor>n\<rfloor> = n" and b: "\<bar>n\<bar> \<le> of_int A"
    unfolding whole_number.simps by blast+
  from b have "\<bar>(of_int \<lfloor>n\<rfloor> :: rat)\<bar> \<le> of_int A" unfolding n .
  then have "(of_int \<bar>\<lfloor>n\<rfloor>\<bar> :: rat) \<le> of_int A" by (simp only: of_int_abs)
  then have "\<bar>\<lfloor>n\<rfloor>\<bar> \<le> A" by (simp only: of_int_le_iff)
  with n[symmetric] show ?thesis by blast
qed

lemma whole_balances_lease:
  assumes "whole_balances B st" "l \<in> set (leases st)"
  shows "\<exists>i. current_balance l = SInt i \<and> \<bar>i\<bar> \<le> B"
  using assms by (cases "current_balance l") (auto simp: whole_balances_def list_all_iff)

lemma whole_balancesI:
  assumes "\<And>l. l \<in> set (leases st) \<Longrightarrow> \<exists>i. current_balance l = SInt i \<and> \<bar>i\<bar> \<le> B"
  shows "whole_balances B st"
  unfolding whole_balances_def list_all_iff
proof
  fix l assume "l \<in> set (leases st)"
  from assms[OF this] show "case current_balance l of SInt i \<Rightarrow> \<bar>i\<bar> \<le> B | SReal d \<Rightarrow> False"
    by auto
qed

lemma whole_balances_mono:
  assumes "whole_balances B st" "B \<le> B'"
  shows "whole_balances B' st"
proof (rule whole_balancesI)
  fix l assume "l \<in> set (leases st)"
  from whole_balances_lease[OF assms(1) this] assms(2)
  show "\<exists>i. current_balance l = SInt i \<and> \<bar>i\<bar> \<le> B'" by force
qed

lemma whole_paid:
  assumes "whole_balances B st" "\<bar>a\<bar> \<le> A" "B + A \<le> 2 ^ 53"
  shows "whole_balances (B + A) (paid_db st now i (of_int a))"
    and "offsets (paid_db st now i (of_int a)) = offsets st"
proof -
  have key: "\<exists>j. current_balance l = SInt j \<and> \<bar>j\<bar> \<le> B \<and>
               sql_sub (current_balance l) (of_int a) = SInt (j - a) \<and> \<bar>j - a\<bar> \<le> B + A"
    if "l \<in> set (leases st)" for l
  proof -
    from whole_balances_lease[OF assms(1) that] obtain j where j: "current_balance l = SInt j" "\<bar>j\<bar> \<le> B"
      by blast
    from j(2) assms(2,3) have "\<bar>j\<bar> \<le> 2 ^ 53" "\<bar>j - a\<bar> \<le> B + A" "\<bar>j - a\<bar> \<le> 2 ^ 53" by linarith+
    with j sql_sub_int_exact[of j a] show ?thesis by simp
  qed
  show "whole_balances (B + A) (paid_db st now i (of_int a))"
  proof (rule whole_balancesI)
    fix l' assume "l' \<in> set (leases (paid_db st now i (of_int a)))"
    then obtain l where l: "l \<in> set (leases st)"
      and l': "l' = (if l_id l = i then l\<lparr>current_balance := sql_sub (current_balance l) (of_int a)\<rparr> else l)"
      by (auto simp: paid_db_def sub_balance_def)
    from key[OF l] obtain j where j: "current_balance l = SInt j" "\<bar>j\<bar> \<le> B"
      "sql_sub (current_balance l) (of_int a) = SInt (j - a)" "\<bar>j - a\<bar> \<le> B + A" by blast
    from j(2) assms(2) have "\<bar>j\<bar> \<le> B + A" by linarith
    with j l' show "\<exists>k. current_balance l' = SInt k \<and> \<bar>k\<bar> \<le> B + A" by simp
  qed
  have "of_int (int_of_sql (current_balance l')) - ledger_sum (payments (paid_db st now i (of_int a))) (l_id l')
        = of_int (int_of_sql (current_balance l)) - ledger_sum (payments st) (l_id l)"
    if l: "l \<in> set (leases st)"
      and l': "l' = (if l_id l = i then l\<lparr>current_balance := sql_sub (current_balance l) (of_int a)\<rparr> else l)"
    for l l'
  proof -
    from key[OF l] obtain j where j: "current_balance l = SInt j"
      "sql_sub (current_balance l) (of_int a) = SInt (j - a)" by blast
    with l' show ?thesis
      by (simp add: paid_db_def ledger_sum_snoc pay_entry_def effect_def)
  qed
  then show "offsets (paid_db st now i (of_int a)) = offsets st"
    by (simp add: offsets_def paid_db_def sub_balance_def)
qed

lemma whole_adjusted:
  assumes "whole_balances B st" "\<bar>a\<bar> \<le> A" "B + A \<le> 2 ^ 53"
  shows "whole_balances (B + A) (adjusted_db st now i (of_int a))"
    and "offsets (adjusted_db st now i (of_int a)) = offsets st"
proof -
  have key: "\<exists>j. current_balance l = SInt j \<and> \<bar>j\<bar> \<le> B \<and>
               sql_add (current_balance l) (of_int a) = SInt (j + a) \<and> \<bar>j + a\<bar> \<le> B + A"
    if "l \<in> set (leases st)" for l
  proof -
    from whole_balances_lease[OF assms(1) that] obtain j where j: "current_balance l = SInt j" "\<bar>j\<bar> \<le> B"
      by blast
    from j(2) assms(2,3) have "\<bar>j\<bar> \<le> 2 ^ 53" "\<bar>j + a\<bar> \<le> B + A" "\<bar>j + a\<bar> \<le> 2 ^ 53" by linarith+
    with j sql_add_int_exact[of j a] show ?thesis by simp
  qed
  show "whole_balances (B + A) (adjusted_db st now i (of_int a))"
  proof (rule whole_balancesI)
    fix l' assume "l' \<in> set (leases (adjusted_db st now i (of_int a)))"
    then obtain l where l: "l \<in> set (leases st)"
      and l': "l' = (if l_id l = i then l\<lparr>current_balance := sql_add (current_balance l) (of_int a)\<rparr> else l)"
      by (auto simp: adjusted_db_def add_balance_def)
    from key[OF l] obtain j where j: "current_balance l = SInt j" "\<bar>j\<bar> \<le> B"
      "sql_add (current_balance l) (of_int a) = SInt (j + a)" "\<bar>j + a\<bar> \<le> B + A" by blast
    from j(2) assms(2) have "\<bar>j\<bar> \<le> B + A" by linarith
    with j l' show "\<exists>k. current_balance l' = SInt k \<and> \<bar>k\<bar> \<le> B + A" by simp
  qed
  have "of_int (int_of_sql (current_balance l')) - ledger_sum (payments (adjusted_db st now i (of_int a))) (l_id l')
        = of_int (int_of_sql (current_balance l)) - ledger_sum (payments st) (l_id l)"
    if l: "l \<in> set (leases st)"
      and l': "l' = (if l_id l = i then l\<lparr>current_balance := sql_add (current_balance l) (of_int a)\<rparr> else l)"
    for l l'
  proof -
    from key[OF l] obtain j where j: "current_balance l = SInt j"
      "sql_add (current_balance l) (of_int a) = SInt (j + a)" by blast
    with l' show ?thesis
      by (simp add: adjusted_db_def ledger_sum_snoc pay_entry_def effect_def)
  qed
  then show "offsets (adjusted_db st now i (of_int a)) = offsets st"
    by (simp add: offsets_def adjusted_db_def add_balance_def)
qed

lemma whole_step:
  assumes "whole_balances B st" "whole_amount A tc" "0 \<le> A" "B + A \<le> 2 ^ 53"
  shows "whole_balances (B + A) (step st tc) \<and> offsets (step st tc) = offsets st"
proof -
  have same: "whole_balances (B + A) st \<and> offsets st = offsets st"
    using assms(1,3) by (simp add: whole_balances_mono)
  obtain now c where tc: "tc = (now, c)" by (cases tc)
  show ?thesis
  proof (cases c)
    case (Pay sub i val)
    from pay_cases[of st now sub i val] show ?thesis
    proof
      assume "snd (post_rentals_payments st now sub i val) = st"
      with tc Pay same show ?thesis by simp
    next
      assume "\<exists>n. 0 < n \<and> val = Finite n \<and> snd (post_rentals_payments st now sub i val) = paid_db st now i n"
      then obtain n where n: "val = Finite n" "snd (post_rentals_payments st now sub i val) = paid_db st now i n"
        by blast
      from assms(2) tc Pay n(1) have "whole_number A (Finite n)" by simp
      from whole_number_int[OF this] obtain a where a: "n = of_int a" "\<bar>a\<bar> \<le> A" by blast
      from whole_paid[OF assms(1) a(2) assms(4), of now i] tc Pay n(2) a(1) show ?thesis by simp
    qed
  next
    case (AdjustBalance sub i val)
    from adjust_cases[of st now sub i val] show ?thesis
    proof
      assume "snd (patch_rentals_leases_balance st now sub i val) = st"
      with tc AdjustBalance same show ?thesis by simp
    next
      assume "\<exists>d. val = Finite d \<and> snd (patch_rentals_leases_balance st now sub i val) = adjusted_db st now i d"
      then obtain d where d: "val = Finite d"
        "snd (patch_rentals_leases_balance st now sub i val) = adjusted_db st now i d"
        by blast
      from assms(2) tc AdjustBalance d(1) have "whole_number A (Finite d)" by simp
      from whole_number_int[OF this] obtain a where a: "d = of_int a" "\<bar>a\<bar> \<le> A" by blast
      from whole_adjusted[OF assms(1) a(2) assms(4), of now i] tc AdjustBalance d(2) a(1) show ?thesis by simp
    qed
  qed
qed

lemma whole_run:
  assumes "whole_balances B st" "list_all (whole_amount A) cs" "0 \<le> A"
    and "B + A * int (length cs) \<le> 2 ^ 53"
  shows "whole_balances (B + A * int (length cs)) (run st cs) \<and> offsets (run st cs) = offsets st"
  using assms(2,4)
proof (induction cs rule: rev_induct)
  case Nil
  with assms(1) show ?case by (simp add: run_def)
next
  case (snoc tc cs)
  let ?B = "B + A * int (length cs)"
  have len: "B + A * int (length (cs @ [tc])) = ?B + A" by (simp add: algebra_simps)
  from assms(3) have "0 \<le> A * int (length cs)" by simp
  with snoc.prems(2) len assms(3) have le: "?B \<le> 2 ^ 53" "?B + A \<le> 2 ^ 53" by linarith+
  from snoc.prems(1) have cs: "list_all (whole_amount A) cs" and tc: "whole_amount A tc" by simp_all
  from snoc.IH[OF cs le(1)] have ih: "whole_balances ?B (run st cs)" "offsets (run st cs) = offsets st"
    by simp_all
  from whole_step[OF ih(1) tc assms(3) le(2)] ih(2) show ?case
    unfolding len run_snoc by simp
qed

lemma find_by_id_related:
  assumes "map l_id ls' = map l_id ls"
    and "map (\<lambda>l. v l - f (l_id l)) ls' = map (\<lambda>l. v l - g (l_id l)) ls"
    and "find (\<lambda>l. l_id l = i) ls = Some l"
  shows "\<exists>l'. find (\<lambda>l. l_id l = i) ls' = Some l' \<and> v l' - f i = (v l - g i :: rat)"
  using assms
proof (induction ls arbitrary: ls')
  case Nil
  then show ?case by simp
next
  case (Cons x xs)
  from Cons.prems(1) obtain y ys where ls': "ls' = y # ys" by (cases ls') auto
  with Cons.prems have hd: "l_id y = l_id x" "v y - f (l_id y) = v x - g (l_id x)"
    and tl: "map l_id ys = map l_id xs"
      "map (\<lambda>l. v l - f (l_id l)) ys = map (\<lambda>l. v l - g (l_id l)) xs"
    by simp_all
  show ?case
  proof (cases "l_id x = i")
    case True
    with Cons.prems(3) have "l = x" by simp
    with True hd ls' show ?thesis by simp
  next
    case False
    with Cons.prems(3) have "find (\<lambda>l. l_id l = i) xs = Some l" by simp
    from Cons.IH[OF tl this] False hd ls' show ?thesis by simp
  qed
qed

section \<open>The demo data, evaluated\<close>

text \<open>The bootstrap on the empty database, for any clock reading and any two UUIDs.\<close>

lemma lower_landlord: "lower ''landlord@demo.com'' = ''landlord@demo.com''"
  by (simp add: lower_def lower_char_def)

lemma lower_renter: "lower ''renter@demo.com'' = ''renter@demo.com''"
  by (simp add: lower_def lower_char_def)

lemma first_run:
  "ensureDemoRentalData empty_db now startIso uuid1 uuid2 =
     \<lparr>users = [\<lparr>user_id = uuid1, email = ''landlord@demo.com'', role = ''landlord'',
                 full_name = ''Demo Landlord''\<rparr>,
                \<lparr>user_id = uuid2, email = ''renter@demo.com'', role = ''renter'',
                 full_name = ''Demo Renter''\<rparr>],
      rental_properties = [\<lparr>rp_id = 1, landlord_id = uuid1, title = ''Demo Duplex'',
         address = ''500 Oak St, Demo City'', stage = ''Reviewing'', rp_monthly_rent = 1200,
         rp_created_at = now\<rparr>],
      leases = [\<lparr>l_id = 1, property_id = 1, renter_id = uuid2,
         start_date = (if startIso = [] then None else Some startIso),
         occupants_count = 1, monthly_rent = 1200, due_day = 1, current_balance = SInt 1200,
         is_active = 1, created_at = now\<rparr>],
      payments = []\<rparr>"
  by (simp add: ensureDemoRentalData_def ensureDemoUsers_def getUserByEmail_def createUser_def
      empty_db_def lower_landlord lower_renter listRentalPropertiesForLandlord_def order_desc_def
      createRentalProperty_def next_id_def getActiveLeaseForProperty_def createLease_def Let_def
      stored_def)

lemma demo_db_eq:
  "demo_db = \<lparr>users = demo_users, rental_properties = [demo_property], leases = [demo_lease],
               payments = []\<rparr>"
  by (simp add: demo_db_def first_run demo_users_def demo_property_def demo_lease_def)

lemma demo_lease_found: "getLeaseById demo_db 1 = Some demo_lease"
  by (simp add: getLeaseById_def demo_db_eq demo_lease_def)

lemma demo_property_found: "getRentalPropertyById demo_db 1 = Some demo_property"
  by (simp add: getRentalPropertyById_def demo_db_eq demo_property_def)

text \<open>The sums and differences of the examples. Those of \<open>small_sums\<close> stay with 32-bit
  integers. The four after them leave the integers, and there SQLite computes in doubles:
  \<open>1201 + 2^53\<close> and \<open>-1 - 2^53\<close> are no doubles, and the nearest double is kept; \<open>1200 -
  0.5\<close> and \<open>1200 + 0.5\<close> are doubles and are stored as such.\<close>

lemma small_sums:
  "sql_sub (SInt 1200) 200 = SInt 1000"
  "sql_sub (SInt 1200) 1200 = SInt 0"
  "sql_add (SInt 0) 1200 = SInt 1200"
  "sql_sub (SInt 1200) 1300 = SInt (- 100)"
  "sql_add (SInt 1000) 1200 = SInt 2200"
  "sql_add (SInt 2200) (- 50) = SInt 2150"
  "sql_add (SInt 1200) 0 = SInt 1200"
  "sql_add (SInt 1200) 1 = SInt 1201"
  "sql_sub (SInt 1200) 1201 = SInt (- 1)"
  "sql_sub (SInt (- 100)) 50 = SInt (- 150)"
  by (simp_all add: sql_add_def sql_sub_def is_int32_def in_int64_def)





lemmas eval_defs = post_rentals_payments_def patch_rentals_leases_balance_def recordPayment_def
  updateLeaseBalance_def getLeaseById_def getRentalPropertyById_def listPaymentsForLease_def
  order_desc_def next_id_def run_def demo_db_eq demo_lease_def demo_property_def Let_def small_sums

lemma demo_pay_200:
  "run demo_db [(1, Pay ''renter-1'' 1 (Finite 200))] =
     \<lparr>users = demo_users, rental_properties = [demo_property],
      leases = [demo_lease\<lparr>current_balance := SInt 1000\<rparr>],
      payments = [\<lparr>p_id = 1, lease_id = 1, amount = 200, paid_at = 1, ptype = payment\<rparr>]\<rparr>"
  by (simp add: eval_defs)

lemma demo_scenario:
  "run demo_db [(1, Pay ''renter-1'' 1 (Finite 1200)),
                (2, AdjustBalance ''landlord-1'' 1 (Finite 1200)),
                (3, Pay ''renter-1'' 1 (Finite 1300))] =
     \<lparr>users = demo_users, rental_properties = [demo_property],
      leases = [demo_lease\<lparr>current_balance := SInt (- 100)\<rparr>],
      payments = [\<lparr>p_id = 1, lease_id = 1, amount = 1200, paid_at = 1, ptype = payment\<rparr>,
                  \<lparr>p_id = 2, lease_id = 1, amount = 1200, paid_at = 2, ptype = charge\<rparr>,
                  \<lparr>p_id = 3, lease_id = 1, amount = 1300, paid_at = 3, ptype = payment\<rparr>]\<rparr>"
  by (simp add: eval_defs)


lemma demo_db2_eq:
  "demo_db2 = \<lparr>users = demo_users @ more_users, rental_properties = [demo_property],
                leases = [demo_lease], payments = []\<rparr>"
  by (simp add: demo_db2_def demo_db_eq)

lemma demo2_lease_found: "getLeaseById demo_db2 1 = Some demo_lease"
  by (simp add: getLeaseById_def demo_db2_eq demo_lease_def)

lemma demo2_property_found: "getRentalPropertyById demo_db2 1 = Some demo_property"
  by (simp add: getRentalPropertyById_def demo_db2_eq demo_property_def)

lemma demo2_users:
  "getUserById demo_db2 ''landlord-1'' =
     Some \<lparr>user_id = ''landlord-1'', email = ''landlord@demo.com'', role = ''landlord'',
           full_name = ''Demo Landlord''\<rparr>"
  "getUserById demo_db2 ''renter-1'' =
     Some \<lparr>user_id = ''renter-1'', email = ''renter@demo.com'', role = ''renter'',
           full_name = ''Demo Renter''\<rparr>"
  "getUserById demo_db2 ''renter-2'' =
     Some \<lparr>user_id = ''renter-2'', email = ''renter2@demo.com'', role = ''renter'',
           full_name = ''Second Renter''\<rparr>"
  "getUserById demo_db2 ''landlord-2'' =
     Some \<lparr>user_id = ''landlord-2'', email = ''landlord2@demo.com'', role = ''landlord'',
           full_name = ''Second Landlord''\<rparr>"
  by (simp_all add: getUserById_def demo_db2_eq demo_users_def more_users_def)

section \<open>Role checks, active leases and stored numbers\<close>

text \<open>What a role check that fails answers.\<close>

lemma route_wrong_role:
  assumes "getUserById st sub = Some u"
  shows "role u \<noteq> ''renter'' \<Longrightarrow> role u \<noteq> [] \<Longrightarrow>
           route_post_rentals_payments st now sub leaseId val =
             (Error 403 ''Only renters can do this action.'', st)"
    and "role u \<noteq> ''landlord'' \<Longrightarrow>
           route_patch_rentals_leases_balance st now sub leaseId val =
             (Error 403 ''Only landlords can do this action.'', st)"
  using assms
  by (simp_all add: route_post_rentals_payments_def route_patch_rentals_leases_balance_def
      requireRole_def)

text \<open>The active-lease lookup answers with an active lease of the unit.\<close>

lemma first_desc_mem: "first_desc k xs = Some y \<Longrightarrow> y \<in> set xs"
  by (induction xs arbitrary: y) (auto split: option.splits if_splits)

lemma active_lease_is_active:
  assumes "getActiveLeaseForProperty st propertyId = Some l"
  shows "l \<in> set (leases st)" and "property_id l = propertyId" and "is_active l = 1"
  using first_desc_mem[OF assms[unfolded getActiveLeaseForProperty_def]] by simp_all

text \<open>A number that is a double is read back from a row as it was stored.\<close>

lemma json_number_int:
  assumes "\<bar>i\<bar> \<le> 2 ^ 53"
  shows "json_number (SInt i) = of_int i"
  using fl_int_exact[OF assms] by (simp add: json_number_def js_of_def)

lemma stored_read_back:
  assumes "fl v = Dbl v"
  shows "json_number (stored v) = v"
proof (cases "of_int \<lfloor>v\<rfloor> = v \<and> - (2 ^ 63) < v \<and> v < 2 ^ 63")
  case True
  have "stored v = SInt \<lfloor>v\<rfloor>"
    unfolding stored_def affinity.simps using True by (rule if_P)
  moreover from True have "of_int \<lfloor>v\<rfloor> = v" by blast
  with assms have "fl (of_int \<lfloor>v\<rfloor>) = Dbl v" by (simp only:)
  ultimately show ?thesis by (simp add: json_number_def js_of_def)
next
  case False
  have "stored v = SReal (Dbl v)"
    unfolding stored_def affinity.simps using False by (rule if_not_P)
  then show ?thesis by (simp add: json_number_def js_of_def)
qed

lemma stored_small:
  "stored 0 = SInt 0" "stored (- 50) = SInt (- 50)" "stored 1200 = SInt 1200"
  by (simp_all add: stored_def)

section \<open>The running balance and the ledger\<close>

text \<open>
  C1 (as amended). The claim reads: after every sequence of Pay / Charge / Credit commands
  a lease's balance is the sum of the signed effects of all its entries. The code keeps a
  weaker relation, for two reasons. \<^const>\<open>createLease\<close> stores the caller's initial balance
  and writes no entry for it, and the balance is a number of SQLite and JavaScript, so a sum
  is rounded once it is no whole number of magnitude up to \<open>2^53\<close>. What holds: let every
  balance of the database \<open>st\<close> be a stored whole number of magnitude at most \<open>B\<close>, let
  every amount of the command sequence \<open>cs\<close> that is finite be a whole number of magnitude
  at most \<open>A\<close>, and let \<open>B + A * length cs\<close> be at most \<open>2^53\<close>. Then the sequence only
  appends entries \<open>es\<close> to the ledger, and every lease of \<open>st\<close> is still there afterwards
  with a whole balance, which is the balance it had before plus the signed effects of the
  appended entries of that lease (a payment subtracts its amount, a charge and a credit add
  their signed amount). So the balance is the balance at creation plus the ledger sum, and
  it is the ledger sum alone only for a lease created with balance 0.
\<close>

theorem balance_is_start_plus_ledger:
  assumes "whole_balances B st" and "list_all (whole_amount A) cs" and "0 \<le> A"
    and "B + A * int (length cs) \<le> 2 ^ 53"
  shows "\<exists>es. payments (run st cs) = payments st @ es \<and>
     (\<forall>leaseId lease. getLeaseById st leaseId = Some lease \<longrightarrow>
        (\<exists>lease' i j. getLeaseById (run st cs) leaseId = Some lease' \<and>
           current_balance lease = SInt i \<and> current_balance lease' = SInt j \<and>
           of_int j = of_int i + ledger_sum es leaseId))"
proof -
  from run_appends[of st cs] obtain es where es: "payments (run st cs) = payments st @ es"
    by blast
  from whole_run[OF assms]
  have w: "whole_balances (B + A * int (length cs)) (run st cs)"
    and off: "offsets (run st cs) = offsets st" by simp_all
  have "\<exists>lease' i j. getLeaseById (run st cs) leaseId = Some lease' \<and>
           current_balance lease = SInt i \<and> current_balance lease' = SInt j \<and>
           of_int j = of_int i + ledger_sum es leaseId"
    if "getLeaseById st leaseId = Some lease" for leaseId lease
  proof -
    from find_by_id_related[OF ids_run off[unfolded offsets_def] that[unfolded getLeaseById_def]]
    obtain l' where l': "find (\<lambda>l. l_id l = leaseId) (leases (run st cs)) = Some l'"
      "of_int (int_of_sql (current_balance l')) - ledger_sum (payments (run st cs)) leaseId =
       of_int (int_of_sql (current_balance lease)) - ledger_sum (payments st) leaseId"
      by blast
    from that have "lease \<in> set (leases st)" unfolding getLeaseById_def by (rule find_in_set)
    from whole_balances_lease[OF assms(1) this] obtain i where i: "current_balance lease = SInt i"
      by blast
    from l'(1) have "l' \<in> set (leases (run st cs))" by (rule find_in_set)
    from whole_balances_lease[OF w this] obtain j where j: "current_balance l' = SInt j"
      by blast
    from l'(2) es i j have "of_int j = of_int i + ledger_sum es leaseId"
      by (simp add: ledger_sum_append)
    with l'(1) i j show ?thesis by (simp add: getLeaseById_def)
  qed
  with es show ?thesis by blast
qed

text \<open>The theorem at the specification's scenario on the demo lease (created with balance
  1200): pay 1200, charge 1200, pay 1300. The balance ends at -100, which is 1200 plus the
  effects -1200, +1200 and -1300.\<close>

theorem balance_is_start_plus_ledger_witness:
  "whole_balances 1200 demo_db \<and>
   list_all (whole_amount 1300) [(1, Pay ''renter-1'' 1 (Finite 1200)),
                                 (2, AdjustBalance ''landlord-1'' 1 (Finite 1200)),
                                 (3, Pay ''renter-1'' 1 (Finite 1300))] \<and>
   (1200 :: int) + 1300 * 3 \<le> 2 ^ 53 \<and>
   getLeaseById demo_db 1 = Some demo_lease \<and> current_balance demo_lease = SInt 1200 \<and>
   (\<exists>es lease'. payments (run demo_db [(1, Pay ''renter-1'' 1 (Finite 1200)),
                                       (2, AdjustBalance ''landlord-1'' 1 (Finite 1200)),
                                       (3, Pay ''renter-1'' 1 (Finite 1300))]) = payments demo_db @ es \<and>
      getLeaseById (run demo_db [(1, Pay ''renter-1'' 1 (Finite 1200)),
                                 (2, AdjustBalance ''landlord-1'' 1 (Finite 1200)),
                                 (3, Pay ''renter-1'' 1 (Finite 1300))]) 1 = Some lease' \<and>
      current_balance lease' = SInt (- 100) \<and>
      - 100 = 1200 + ledger_sum es 1)"
proof -
  let ?cs = "[(1, Pay ''renter-1'' 1 (Finite 1200)),
              (2, AdjustBalance ''landlord-1'' 1 (Finite 1200)),
              (3, Pay ''renter-1'' 1 (Finite 1300))]"
  have b: "current_balance demo_lease = SInt 1200" by (simp add: demo_lease_def)
  have h1: "whole_balances 1200 demo_db" by (simp add: whole_balances_def demo_db_eq demo_lease_def)
  have h2: "list_all (whole_amount 1300) ?cs" by simp
  have h3: "(0 :: int) \<le> 1300" by simp
  have h4: "(1200 :: int) + 1300 * int (length ?cs) \<le> 2 ^ 53" by simp
  have h4': "(1200 :: int) + 1300 * 3 \<le> 2 ^ 53" by simp
  from balance_is_start_plus_ledger[OF h1 h2 h3 h4] demo_lease_found
  obtain es lease' i j where r: "payments (run demo_db ?cs) = payments demo_db @ es"
    "getLeaseById (run demo_db ?cs) 1 = Some lease'"
    "current_balance demo_lease = SInt i" "current_balance lease' = SInt j"
    "(of_int j :: rat) = of_int i + ledger_sum es 1"
    by metis
  have "getLeaseById (run demo_db ?cs) 1 = Some (demo_lease\<lparr>current_balance := SInt (- 100)\<rparr>)"
    unfolding demo_scenario by (simp add: getLeaseById_def demo_lease_def)
  with r(2,4) have j: "j = - 100" by simp
  from r(3) b have i: "i = 1200" by simp
  from r(5) i j have "- 100 = 1200 + ledger_sum es 1" by simp
  with r(1,2,4) j h1 h2 h4' demo_lease_found b show ?thesis by blast
qed

text \<open>
  The claim as stated fails on the demo lease: the bootstrap creates it with balance 1200
  and an empty ledger, and after the renter pays 200 the balance is 1000 while the signed
  effects of its entries sum to -200.
\<close>

theorem balance_is_not_ledger_sum:
  "getLeaseById (run demo_db [(1, Pay ''renter-1'' 1 (Finite 200))]) 1
     = Some (demo_lease\<lparr>current_balance := SInt 1000\<rparr>) \<and>
   ledger_sum (payments (run demo_db [(1, Pay ''renter-1'' 1 (Finite 200))])) 1 = - 200"
  unfolding demo_pay_200
  by (simp add: getLeaseById_def demo_lease_def ledger_sum_def effect_def)

section \<open>Paid and overdue\<close>

text \<open>
  For a lease with a rent above 0, the card of the landlord portal and the renter
  dashboard, in each place it derives the status, use the same threshold: paid when the
  balance is at most the monthly rent, overdue when it is above.
\<close>

lemma card_and_dashboard_agree:
  assumes "0 < monthly_rent l"
  shows "card_paidThisMonth leasesRes \<lparr>u_id = i, activeLease = Some l\<rparr>
           = (json_number (current_balance l) \<le> monthly_rent l)"
    and "paidThisMonth (profile_loaded prev l) = (json_number (current_balance l) \<le> monthly_rent l)"
    and "paidThisMonth (profile_paid prev l) = (json_number (current_balance l) \<le> monthly_rent l)"
    and "render_paidThisMonth (profile_loaded prev l) = (json_number (current_balance l) \<le> monthly_rent l)"
    and "balanceOverdue (profile_loaded prev l) = (json_number (current_balance l) > monthly_rent l)"
  using assms
  by (simp_all add: card_paidThisMonth_def profile_loaded_def profile_paid_def
      render_paidThisMonth_def balanceOverdue_def Let_def)

text \<open>
  C2. The claim holds of the card and of the dashboard, as above, and fails for the tile
  "Paid this month" of the landlord portal: \<^const>\<open>stats_paid\<close> counts a unit as paid when
  the balance of its active lease is at most 0, not at most the monthly rent. On the demo
  data right after the bootstrap (balance 1200, rent 1200) the landlord's list holds the
  demo unit with the demo lease; its card says paid, the renter's dashboard says paid and
  not overdue, and the tile counts 0 paid units.
\<close>

theorem stats_tile_disagrees_with_card:
  "get_rentals_properties demo_db ''landlord-1'' = [\<lparr>u_id = 1, activeLease = Some demo_lease\<rparr>] \<and>
   current_balance demo_lease = SInt 1200 \<and> monthly_rent demo_lease = 1200 \<and>
   card_paidThisMonth [demo_lease] \<lparr>u_id = 1, activeLease = Some demo_lease\<rparr> = True \<and>
   render_paidThisMonth (profile_loaded demoRenterProfile demo_lease) = True \<and>
   paidThisMonth (profile_loaded demoRenterProfile demo_lease) = True \<and>
   balanceOverdue (profile_loaded demoRenterProfile demo_lease) = False \<and>
   stats_paid [\<lparr>u_id = 1, activeLease = Some demo_lease\<rparr>] = 0"
  by (simp add: get_rentals_properties_def listRentalPropertiesForLandlord_def order_desc_def
      getActiveLeaseForProperty_def demo_db_eq demo_property_def demo_lease_def
      card_paidThisMonth_def render_paidThisMonth_def profile_loaded_def balanceOverdue_def
      demoRenterProfile_def stats_paid_def json_number_int Let_def)

section \<open>Charges and credits\<close>




section \<open>Payments\<close>




section \<open>Leases of a unit\<close>

text \<open>
  The bootstrap looks for an active lease of the unit before it creates one: run again on
  the demo data, with any clock reading, start date and fresh UUIDs, it adds no lease.
\<close>

lemma bootstrap_keeps_one_lease:
  "leases (ensureDemoRentalData demo_db now startIso uuid1 uuid2) = leases demo_db"
  by (simp add: ensureDemoRentalData_def ensureDemoUsers_def getUserByEmail_def
      lower_landlord lower_renter listRentalPropertiesForLandlord_def order_desc_def
      getActiveLeaseForProperty_def demo_db_eq demo_users_def demo_property_def demo_lease_def
      Let_def)

text \<open>
  C5. The claim reads: a unit never has two active leases, the registry checks before it
  creates a lease. The bootstrap makes that check, as above, and the landlord portal and
  \<^verbatim>\<open>GET /rentals/properties\<close> carry one active lease per unit; the route that creates
  leases does not make it, the table has no constraint for it, and no statement ever clears
  \<^verbatim>\<open>is_active\<close>. For every database in which the unit has an active lease \<open>old\<close>, a
  valid request (rent above 0, due day from 1 to 31) of the landlord who owns the unit is
  answered 201 and appends one more lease of that unit with \<^verbatim>\<open>is_active = 1\<close>; \<open>old\<close>
  stays as it was, so the unit then has at least two active leases, and the active-lease
  lookup answers with the new one.
\<close>

theorem second_active_lease_is_created:
  assumes "propertyId \<noteq> 0" and "renterId \<noteq> []" and "0 < rent" and "1 \<le> due" and "due \<le> 31"
    and "getRentalPropertyById st propertyId = Some property" and "landlord_id property = sub"
    and "getActiveLeaseForProperty st propertyId = Some old"
  shows "\<exists>created st'.
      post_rentals_leases st now sub propertyId renterId startDate occ (Finite rent)
          (Finite (of_int due)) bal = (Json 201 (Some created), st') \<and>
      leases st' = leases st @ [created] \<and>
      property_id created = propertyId \<and> is_active created = 1 \<and>
      old \<in> set (leases st') \<and> property_id old = propertyId \<and> is_active old = 1 \<and>
      l_id created \<noteq> l_id old \<and>
      2 \<le> length (filter (\<lambda>l. property_id l = propertyId \<and> is_active l = 1) (leases st')) \<and>
      getActiveLeaseForProperty st' propertyId = Some created"
proof -
  let ?l = "new_lease st now propertyId renterId startDate occ rent (of_int due)
              (if isFinite bal then finite_value bal else 0)"
  let ?st = "st\<lparr>leases := leases st @ [?l]\<rparr>"
  let ?P = "\<lambda>l. property_id l = propertyId \<and> is_active l = 1"
  note o = active_lease_is_active[OF assms(8)]
  have new: "property_id ?l = propertyId" "is_active ?l = 1"
    by (simp_all add: new_lease_def)
  have "post_rentals_leases st now sub propertyId renterId startDate occ (Finite rent)
          (Finite (of_int due)) bal = (Json 201 (Some ?l), ?st)"
    using assms(1-7) by (rule post_leases_ok)
  moreover have "leases ?st = leases st @ [?l]" by simp
  moreover from o(1) have "old \<in> set (leases ?st)" by simp
  moreover from o(1) have "l_id old < l_id ?l"
    by (auto simp: new_lease_def intro!: next_id_fresh)
  then have "l_id ?l \<noteq> l_id old" by simp
  moreover have "2 \<le> length (filter ?P (leases ?st))"
  proof -
    from o have "old \<in> set (filter ?P (leases st))" by simp
    then have "0 < length (filter ?P (leases st))" by (rule length_pos_if_in_set)
    moreover from new
    have "length (filter ?P (leases ?st)) = Suc (length (filter ?P (leases st)))" by simp
    ultimately show ?thesis by linarith
  qed
  moreover have "getActiveLeaseForProperty ?st propertyId = Some ?l"
    by (rule new_lease_active_lookup)
  ultimately show ?thesis using new o(2,3) by blast
qed

text \<open>The theorem on the demo data: the demo unit has the active demo lease, the demo
  landlord posts one more lease for the same unit, and the table then holds two leases of
  unit 1 with \<^verbatim>\<open>is_active = 1\<close>.\<close>

theorem second_active_lease_is_created_witness:
  "(1::nat) \<noteq> 0 \<and> ''renter-1'' \<noteq> [] \<and> (0::rat) < 900 \<and> (1::int) \<le> 5 \<and> (5::int) \<le> 31 \<and>
   getRentalPropertyById demo_db 1 = Some demo_property \<and> landlord_id demo_property = ''landlord-1'' \<and>
   getActiveLeaseForProperty demo_db 1 = Some demo_lease \<and>
   (\<exists>created.
      post_rentals_leases demo_db 9 ''landlord-1'' 1 ''renter-1'' None 1 (Finite 900) (Finite 5) (Finite 0) =
        (Json 201 (Some created), demo_db\<lparr>leases := [demo_lease, created]\<rparr>) \<and>
      created = \<lparr>l_id = 2, property_id = 1, renter_id = ''renter-1'', start_date = None,
                 occupants_count = 1, monthly_rent = 900, due_day = 5, current_balance = SInt 0,
                 is_active = 1, created_at = 9\<rparr> \<and>
      property_id demo_lease = 1 \<and> is_active demo_lease = 1 \<and>
      property_id created = 1 \<and> is_active created = 1 \<and> l_id created \<noteq> l_id demo_lease \<and>
      getActiveLeaseForProperty (demo_db\<lparr>leases := [demo_lease, created]\<rparr>) 1 = Some created)"
proof -
  have h: "(1::nat) \<noteq> 0" "''renter-1'' \<noteq> []" "(0::rat) < 900" "(1::int) \<le> 5" "(5::int) \<le> 31"
    "getRentalPropertyById demo_db 1 = Some demo_property" "landlord_id demo_property = ''landlord-1''"
    using demo_property_found by (simp_all add: demo_property_def)
  have a: "getActiveLeaseForProperty demo_db 1 = Some demo_lease"
    by (simp add: getActiveLeaseForProperty_def demo_db_eq demo_lease_def)
  let ?c = "\<lparr>l_id = 2, property_id = 1, renter_id = ''renter-1'', start_date = None,
             occupants_count = 1, monthly_rent = 900, due_day = 5, current_balance = SInt 0,
             is_active = 1, created_at = 9\<rparr>"
  have e: "post_rentals_leases demo_db 9 ''landlord-1'' 1 ''renter-1'' None 1 (Finite 900) (Finite 5)
             (Finite 0) = (Json 201 (Some ?c), demo_db\<lparr>leases := [demo_lease, ?c]\<rparr>)"
    by (simp add: post_rentals_leases_def createLease_def getRentalPropertyById_def
        demo_db_eq demo_property_def demo_lease_def next_id_def stored_small Let_def)
  from second_active_lease_is_created[OF h a, of 9 None 1 "Finite 0"]
  obtain created st' where r:
    "post_rentals_leases demo_db 9 ''landlord-1'' 1 ''renter-1'' None 1 (Finite 900)
        (Finite (of_int 5)) (Finite 0) = (Json 201 (Some created), st')"
    "property_id created = 1" "is_active created = 1"
    "property_id demo_lease = 1" "is_active demo_lease = 1" "l_id created \<noteq> l_id demo_lease"
    "getActiveLeaseForProperty st' 1 = Some created"
    by blast
  from r(1) e have c: "created = ?c" "st' = demo_db\<lparr>leases := [demo_lease, ?c]\<rparr>" by simp_all
  from r(2-7) c e h a show ?thesis by blast
qed

section \<open>Who may change a balance\<close>

text \<open>
  C6 (as amended). The claim reads: a payment by someone who is not the renter of the
  lease, and an adjustment by a landlord who does not own the lease's unit, are rejected as
  forbidden with no change. Each route checks the role of the requester first, and each
  handler validates the amount before it looks at the lease, so the answer is the
  ownership error only for a requester with the role of the route and an amount that
  passes validation. What holds, for a lease that exists and a requester who is a user:
  every request below leaves the database as it was. A payment request of a user with the
  role renter who is not the renter of the lease is answered 403 "You can only pay your own
  lease." when the amount is finite and above 0, and 400 otherwise; of a user with another
  role, 403 "Only renters can do this action." An adjustment by a user with the role
  landlord who is not the landlord of the lease's property (or whose property is gone) is
  answered 403 "You can only update your own leases." when the delta is finite, and 400
  otherwise; by a user with another role, 403 "Only landlords can do this action."
\<close>

theorem wrong_requester_changes_nothing:
  assumes "getLeaseById st leaseId = Some lease" and "getUserById st sub = Some u"
  shows "(role u = ''renter'' \<and> renter_id lease \<noteq> sub \<longrightarrow>
           route_post_rentals_payments st now sub leaseId val =
             (if isFinite val \<and> num_gt val 0 then Error 403 ''You can only pay your own lease.''
              else Error 400 ''Payment amount must be positive.'', st)) \<and>
         (role u \<noteq> ''renter'' \<and> role u \<noteq> [] \<longrightarrow>
           route_post_rentals_payments st now sub leaseId val =
             (Error 403 ''Only renters can do this action.'', st)) \<and>
         (role u = ''landlord'' \<and>
          map_option landlord_id (getRentalPropertyById st (property_id lease)) \<noteq> Some sub \<longrightarrow>
           route_patch_rentals_leases_balance st now sub leaseId val =
             (if isFinite val then Error 403 ''You can only update your own leases.''
              else Error 400 ''Balance must be a number.'', st)) \<and>
         (role u \<noteq> ''landlord'' \<longrightarrow>
           route_patch_rentals_leases_balance st now sub leaseId val =
             (Error 403 ''Only landlords can do this action.'', st))"
proof (intro conjI impI)
  assume a: "role u = ''renter'' \<and> renter_id lease \<noteq> sub"
  with assms(1) have "map_option renter_id (getLeaseById st leaseId) \<noteq> Some sub" by simp
  then have "post_rentals_payments st now sub leaseId val =
             (if isFinite val \<and> num_gt val 0 then Error 403 ''You can only pay your own lease.''
              else Error 400 ''Payment amount must be positive.'', st)"
    by (rule pay_rejected_unless_renter)
  with route_is_handler(1)[OF assms(2)] a
  show "route_post_rentals_payments st now sub leaseId val =
             (if isFinite val \<and> num_gt val 0 then Error 403 ''You can only pay your own lease.''
              else Error 400 ''Payment amount must be positive.'', st)"
    by simp
next
  assume "role u \<noteq> ''renter'' \<and> role u \<noteq> []"
  with route_wrong_role(1)[OF assms(2)]
  show "route_post_rentals_payments st now sub leaseId val =
          (Error 403 ''Only renters can do this action.'', st)"
    by simp
next
  assume a: "role u = ''landlord'' \<and>
    map_option landlord_id (getRentalPropertyById st (property_id lease)) \<noteq> Some sub"
  then have "map_option landlord_id (getRentalPropertyById st (property_id lease)) \<noteq> Some sub"
    by simp
  with assms(1) have "patch_rentals_leases_balance st now sub leaseId val =
             (if isFinite val then Error 403 ''You can only update your own leases.''
              else Error 400 ''Balance must be a number.'', st)"
    by (rule adjust_rejected_unless_owner)
  with route_is_handler(2)[OF assms(2)] a
  show "route_patch_rentals_leases_balance st now sub leaseId val =
             (if isFinite val then Error 403 ''You can only update your own leases.''
              else Error 400 ''Balance must be a number.'', st)"
    by simp
next
  assume "role u \<noteq> ''landlord''"
  with route_wrong_role(2)[OF assms(2)]
  show "route_patch_rentals_leases_balance st now sub leaseId val =
          (Error 403 ''Only landlords can do this action.'', st)"
    by simp
qed

text \<open>The theorem on the demo data with a second renter and a second landlord: a payment
  of 100 on the demo lease by the second renter and by the demo landlord, and a charge of
  100 on it by the second landlord and by the demo renter.\<close>

theorem wrong_requester_changes_nothing_witness:
  "getLeaseById demo_db2 1 = Some demo_lease \<and>
   map_option role (getUserById demo_db2 ''renter-2'') = Some ''renter'' \<and>
   renter_id demo_lease \<noteq> ''renter-2'' \<and>
   route_post_rentals_payments demo_db2 5 ''renter-2'' 1 (Finite 100) =
     (Error 403 ''You can only pay your own lease.'', demo_db2) \<and>
   map_option role (getUserById demo_db2 ''landlord-1'') = Some ''landlord'' \<and>
   route_post_rentals_payments demo_db2 5 ''landlord-1'' 1 (Finite 100) =
     (Error 403 ''Only renters can do this action.'', demo_db2) \<and>
   map_option role (getUserById demo_db2 ''landlord-2'') = Some ''landlord'' \<and>
   map_option landlord_id (getRentalPropertyById demo_db2 (property_id demo_lease)) \<noteq> Some ''landlord-2'' \<and>
   route_patch_rentals_leases_balance demo_db2 5 ''landlord-2'' 1 (Finite 100) =
     (Error 403 ''You can only update your own leases.'', demo_db2) \<and>
   map_option role (getUserById demo_db2 ''renter-1'') = Some ''renter'' \<and>
   route_patch_rentals_leases_balance demo_db2 5 ''renter-1'' 1 (Finite 100) =
     (Error 403 ''Only landlords can do this action.'', demo_db2)"
proof -
  have h1: "renter_id demo_lease \<noteq> ''renter-2''" by (simp add: demo_lease_def)
  have h2: "map_option landlord_id (getRentalPropertyById demo_db2 (property_id demo_lease))
              \<noteq> Some ''landlord-2''"
    using demo2_property_found by (simp add: demo_lease_def demo_property_def)
  have u: "map_option role (getUserById demo_db2 ''renter-2'') = Some ''renter''"
    "map_option role (getUserById demo_db2 ''landlord-1'') = Some ''landlord''"
    "map_option role (getUserById demo_db2 ''landlord-2'') = Some ''landlord''"
    "map_option role (getUserById demo_db2 ''renter-1'') = Some ''renter''"
    by (simp_all add: demo2_users)
  from wrong_requester_changes_nothing[OF demo2_lease_found demo2_users(3), of 5 "Finite 100"] h1
  have p: "route_post_rentals_payments demo_db2 5 ''renter-2'' 1 (Finite 100) =
     (Error 403 ''You can only pay your own lease.'', demo_db2)"
    by simp
  from wrong_requester_changes_nothing[OF demo2_lease_found demo2_users(1), of 5 "Finite 100"]
  have p': "route_post_rentals_payments demo_db2 5 ''landlord-1'' 1 (Finite 100) =
     (Error 403 ''Only renters can do this action.'', demo_db2)"
    by simp
  from wrong_requester_changes_nothing[OF demo2_lease_found demo2_users(4), of 5 "Finite 100"] h2
  have q: "route_patch_rentals_leases_balance demo_db2 5 ''landlord-2'' 1 (Finite 100) =
     (Error 403 ''You can only update your own leases.'', demo_db2)"
    by simp
  from wrong_requester_changes_nothing[OF demo2_lease_found demo2_users(2), of 5 "Finite 100"]
  have q': "route_patch_rentals_leases_balance demo_db2 5 ''renter-1'' 1 (Finite 100) =
     (Error 403 ''Only landlords can do this action.'', demo_db2)"
    by simp
  from demo2_lease_found h1 h2 u p p' q q' show ?thesis by blast
qed

text \<open>
  The claim as stated fails when the amount is not valid: the second renter, a user with
  the role renter who is not the renter of the demo lease, sends a payment of 0 on it, and
  the route answers 400, the amount-validation error, not 403.
\<close>

theorem wrong_renter_with_bad_amount_gets_400:
  "getLeaseById demo_db2 1 = Some demo_lease \<and>
   map_option role (getUserById demo_db2 ''renter-2'') = Some ''renter'' \<and>
   renter_id demo_lease \<noteq> ''renter-2'' \<and>
   route_post_rentals_payments demo_db2 5 ''renter-2'' 1 (Finite 0) =
     (Error 400 ''Payment amount must be positive.'', demo_db2)"
  using demo2_lease_found
  by (simp add: route_post_rentals_payments_def requireRole_def demo2_users
      post_rentals_payments_def demo_lease_def)

section \<open>Unknown leases\<close>

text \<open>
  C7 (as amended). The claim reads: a payment or an adjustment that names a lease id with
  no lease fails with a not-found error and changes nothing. Nothing changes indeed, but
  only the adjustment answers not-found, and only for a finite delta. What holds when no
  lease has the id: the payments handler leaves the database as it was and answers 403
  "You can only pay your own lease." for a finite amount above 0 (the answer it gives for
  another renter's lease) and 400 for any other amount; the balance handler leaves the
  database as it was and answers 404 "Lease not found." for a finite delta and 400 for any
  other.
\<close>

theorem unknown_lease_changes_nothing:
  assumes "getLeaseById st leaseId = None"
  shows "post_rentals_payments st now sub leaseId val =
           (if isFinite val \<and> num_gt val 0 then Error 403 ''You can only pay your own lease.''
            else Error 400 ''Payment amount must be positive.'', st) \<and>
         patch_rentals_leases_balance st now sub leaseId val =
           (if isFinite val then Error 404 ''Lease not found.''
            else Error 400 ''Balance must be a number.'', st)"
proof
  from assms have "map_option renter_id (getLeaseById st leaseId) \<noteq> Some sub" by simp
  then show "post_rentals_payments st now sub leaseId val =
           (if isFinite val \<and> num_gt val 0 then Error 403 ''You can only pay your own lease.''
            else Error 400 ''Payment amount must be positive.'', st)"
    by (rule pay_rejected_unless_renter)
next
  from assms show "patch_rentals_leases_balance st now sub leaseId val =
           (if isFinite val then Error 404 ''Lease not found.''
            else Error 400 ''Balance must be a number.'', st)"
    by (rule adjust_rejected_unknown)
qed

text \<open>The theorem at lease id 7 of the demo data, which has lease 1 only, with an amount of
  100.\<close>

theorem unknown_lease_changes_nothing_witness:
  "getLeaseById demo_db 7 = None \<and>
   post_rentals_payments demo_db 5 ''renter-1'' 7 (Finite 100) =
     (Error 403 ''You can only pay your own lease.'', demo_db) \<and>
   patch_rentals_leases_balance demo_db 5 ''landlord-1'' 7 (Finite 100) =
     (Error 404 ''Lease not found.'', demo_db)"
proof -
  have h: "getLeaseById demo_db 7 = None"
    by (simp add: getLeaseById_def demo_db_eq demo_lease_def)
  from unknown_lease_changes_nothing[OF h, of 5 "''renter-1''" "Finite 100"]
    unknown_lease_changes_nothing[OF h, of 5 "''landlord-1''" "Finite 100"] h
  show ?thesis by simp
qed

text \<open>
  The claim as stated fails for Pay: the demo renter pays 100 against lease id 7, which no
  lease has, and the answer is 403 (forbidden), not 404.
\<close>

theorem pay_unknown_lease_gets_403:
  "getLeaseById demo_db 7 = None \<and>
   post_rentals_payments demo_db 5 ''renter-1'' 7 (Finite 100) =
     (Error 403 ''You can only pay your own lease.'', demo_db)"
  by (simp add: post_rentals_payments_def getLeaseById_def demo_db_eq demo_lease_def)

section \<open>The sign of an entry\<close>

text \<open>
  C8 (as amended). The claim reads: every entry the two commands create has the sign of
  its kind, a payment and a charge above 0 and a credit below 0. The balance route takes
  every finite delta and files what is not above 0 as a credit, so a delta of 0 becomes a
  credit of amount 0. What holds for every database and every sequence of commands: the
  sequence leaves the entries already there as they are and appends entries of which
  each payment has an amount above 0, each charge an amount above 0, and each credit an
  amount of 0 or below.
\<close>

theorem created_entries_have_the_sign_of_their_kind:
  "\<exists>es. payments (run st cs) = payments st @ es \<and>
     (\<forall>e \<in> set es. (ptype e = payment \<longrightarrow> 0 < amount e) \<and>
                     (ptype e = charge \<longrightarrow> 0 < amount e) \<and>
                     (ptype e = credit \<longrightarrow> amount e \<le> 0))"
proof (induction cs rule: rev_induct)
  case Nil
  have "payments (run st []) = payments st @ []" by (simp add: run_def)
  then show ?case by fastforce
next
  case (snoc tc cs)
  let ?ok = "\<lambda>e. (ptype e = payment \<longrightarrow> 0 < amount e) \<and> (ptype e = charge \<longrightarrow> 0 < amount e) \<and>
                     (ptype e = credit \<longrightarrow> amount e \<le> 0)"
  from snoc obtain es where es: "payments (run st cs) = payments st @ es" "\<forall>e \<in> set es. ?ok e"
    by blast
  from step_payments[of "run st cs" tc] obtain es' where
    es': "payments (step (run st cs) tc) = payments (run st cs) @ es'" "\<forall>e \<in> set es'. ?ok e"
    by blast
  from es es' have "payments (run st (cs @ [tc])) = payments st @ (es @ es')"
    by (simp add: run_snoc)
  moreover from es(2) es'(2) have "\<forall>e \<in> set (es @ es'). ?ok e" by auto
  ultimately show ?case by blast
qed

text \<open>The theorem at a run of three commands on the demo data, one of each kind of
  entry.\<close>

theorem created_entries_have_the_sign_of_their_kind_witness:
  "payments (run demo_db [(1, Pay ''renter-1'' 1 (Finite 200)),
                           (2, AdjustBalance ''landlord-1'' 1 (Finite 1200)),
                           (3, AdjustBalance ''landlord-1'' 1 (Finite (- 50)))]) =
     payments demo_db @
       [\<lparr>p_id = 1, lease_id = 1, amount = 200, paid_at = 1, ptype = payment\<rparr>,
        \<lparr>p_id = 2, lease_id = 1, amount = 1200, paid_at = 2, ptype = charge\<rparr>,
        \<lparr>p_id = 3, lease_id = 1, amount = - 50, paid_at = 3, ptype = credit\<rparr>] \<and>
   (0::rat) < 200 \<and> (0::rat) < 1200 \<and> (- 50 :: rat) \<le> 0"
  using created_entries_have_the_sign_of_their_kind
    [of demo_db "[(1, Pay ''renter-1'' 1 (Finite 200)),
                  (2, AdjustBalance ''landlord-1'' 1 (Finite 1200)),
                  (3, AdjustBalance ''landlord-1'' 1 (Finite (- 50)))]"]
  by (simp add: eval_defs)

text \<open>
  The claim as stated fails at a delta of 0: the demo landlord adjusts the demo lease by 0,
  and the ledger gets a credit whose amount is 0, not below 0.
\<close>

theorem zero_delta_is_a_credit_of_zero:
  "snd (patch_rentals_leases_balance demo_db 7 ''landlord-1'' 1 (Finite 0)) =
     demo_db\<lparr>payments := [\<lparr>p_id = 1, lease_id = 1, amount = 0, paid_at = 7, ptype = credit\<rparr>]\<rparr>"
  by (simp add: eval_defs)

section \<open>How the renter's ledger shows an entry\<close>

text \<open>
  C9. Entries are rendered by the renter portal only, from the items that either of its
  two mappings makes of the rows of the ledger. For every row and either mapping: a charge
  is labelled "Rent issued", shown as "+$" before the absolute amount as
  \<^verbatim>\<open>toLocaleString\<close> writes it (\<open>tls\<close>, the platform's function), with the note "Posted by
  landlord"; a credit is labelled "Credited on", shown with "-$", with the note "Posted by
  landlord"; a payment is labelled "Paid on", shown with "-$", with the note "Paid by
  you".
\<close>

theorem ledger_entry_rendering:
  "(case ptype p of
      charge \<Rightarrow>
        ledgerLabel (item_loaded p) = ''Rent issued'' \<and>
        ledgerLabel (item_paid methodLabel p) = ''Rent issued'' \<and>
        formatLedgerAmount tls (item_loaded p) = ''+$'' @ tls \<bar>amount p\<bar> \<and>
        formatLedgerAmount tls (item_paid methodLabel p) = ''+$'' @ tls \<bar>amount p\<bar> \<and>
        li_note (item_loaded p) = ''Posted by landlord'' \<and>
        li_note (item_paid methodLabel p) = ''Posted by landlord''
    | credit \<Rightarrow>
        ledgerLabel (item_loaded p) = ''Credited on'' \<and>
        ledgerLabel (item_paid methodLabel p) = ''Credited on'' \<and>
        formatLedgerAmount tls (item_loaded p) = ''-$'' @ tls \<bar>amount p\<bar> \<and>
        formatLedgerAmount tls (item_paid methodLabel p) = ''-$'' @ tls \<bar>amount p\<bar> \<and>
        li_note (item_loaded p) = ''Posted by landlord'' \<and>
        li_note (item_paid methodLabel p) = ''Posted by landlord''
    | payment \<Rightarrow>
        ledgerLabel (item_loaded p) = ''Paid on'' \<and>
        ledgerLabel (item_paid methodLabel p) = ''Paid on'' \<and>
        formatLedgerAmount tls (item_loaded p) = ''-$'' @ tls \<bar>amount p\<bar> \<and>
        formatLedgerAmount tls (item_paid methodLabel p) = ''-$'' @ tls \<bar>amount p\<bar> \<and>
        li_note (item_loaded p) = ''Paid by you'' \<and>
        li_note (item_paid methodLabel p) = ''Paid by you'')"
proof (cases "ptype p")
  case payment
  then show ?thesis
    by (simp add: ledgerLabel_def formatLedgerAmount_def formatMoney_def item_loaded_def
        item_paid_def)
next
  case charge
  then show ?thesis
    by (simp add: ledgerLabel_def formatLedgerAmount_def formatMoney_def item_loaded_def
        item_paid_def)
next
  case credit
  then show ?thesis
    by (simp add: ledgerLabel_def formatLedgerAmount_def formatMoney_def item_loaded_def
        item_paid_def)
qed

section \<open>The initial balance of a lease\<close>

text \<open>
  C10. \<^const>\<open>createLease\<close> stores the balance it is given as the running balance of the new
  lease and leaves the ledger as it is: the column holds \<^const>\<open>stored\<close> of the number, which
  is the integer itself for a whole number below \<open>2^63\<close> in magnitude, and which every
  reader gets back as the number given (a double). Through the route, for a valid
  request of the landlord who owns the property: a finite initial balance, negative ones
  included, is the balance of the created lease, a non-finite one becomes 0; the ledger is
  unchanged, and the created lease is what the table holds under its id. In particular the
  demo bootstrap of a first run leaves exactly one lease, whose balance is 1200 and whose
  ledger is empty.
\<close>

theorem createLease_stores_initial_balance:
  "(\<exists>created.
      createLease st now propertyId renterId startDate occ rent dueDay b =
        (Some created, st\<lparr>leases := leases st @ [created]\<rparr>) \<and>
      current_balance created = stored b \<and>
      (\<forall>i. b = of_int i \<and> \<bar>i\<bar> < 2 ^ 63 \<longrightarrow> current_balance created = SInt i) \<and>
      (fl b = Dbl b \<longrightarrow> json_number (current_balance created) = b)) \<and>
   (propertyId \<noteq> 0 \<and> renterId \<noteq> [] \<and> 0 < rent \<and> 1 \<le> due \<and> due \<le> 31 \<and>
    getRentalPropertyById st propertyId = Some property \<and> landlord_id property = sub \<longrightarrow>
      (\<exists>created st'.
         post_rentals_leases st now sub propertyId renterId startDate occ (Finite rent)
             (Finite (of_int due)) bal = (Json 201 (Some created), st') \<and>
         (\<forall>v. bal = Finite v \<longrightarrow>
            current_balance created = stored v \<and>
            (\<forall>i. v = of_int i \<and> \<bar>i\<bar> < 2 ^ 63 \<longrightarrow> current_balance created = SInt i) \<and>
            (fl v = Dbl v \<longrightarrow> json_number (current_balance created) = v)) \<and>
         (\<not> isFinite bal \<longrightarrow> current_balance created = SInt 0) \<and>
         leases st' = leases st @ [created] \<and>
         getLeaseById st' (l_id created) = Some created \<and>
         payments st' = payments st)) \<and>
   (\<exists>created.
      leases (ensureDemoRentalData empty_db now startIso uuid1 uuid2) = [created] \<and>
      current_balance created = SInt 1200 \<and>
      listPaymentsForLease (ensureDemoRentalData empty_db now startIso uuid1 uuid2) (l_id created) = [])"
proof (intro conjI impI)
  let ?l = "new_lease st now propertyId renterId startDate occ rent dueDay b"
  have "createLease st now propertyId renterId startDate occ rent dueDay b =
        (Some ?l, st\<lparr>leases := leases st @ [?l]\<rparr>)"
    by (rule createLease_eq)
  moreover have "current_balance ?l = stored b" by (simp add: new_lease_def)
  moreover have "\<forall>i. b = of_int i \<and> \<bar>i\<bar> < 2 ^ 63 \<longrightarrow> current_balance ?l = SInt i"
    by (auto simp: new_lease_def stored_int)
  moreover have "fl b = Dbl b \<longrightarrow> json_number (current_balance ?l) = b"
    by (simp add: new_lease_def stored_read_back)
  ultimately show "\<exists>created.
      createLease st now propertyId renterId startDate occ rent dueDay b =
        (Some created, st\<lparr>leases := leases st @ [created]\<rparr>) \<and>
      current_balance created = stored b \<and>
      (\<forall>i. b = of_int i \<and> \<bar>i\<bar> < 2 ^ 63 \<longrightarrow> current_balance created = SInt i) \<and>
      (fl b = Dbl b \<longrightarrow> json_number (current_balance created) = b)"
    by blast
next
  assume h: "propertyId \<noteq> 0 \<and> renterId \<noteq> [] \<and> 0 < rent \<and> 1 \<le> due \<and> due \<le> 31 \<and>
    getRentalPropertyById st propertyId = Some property \<and> landlord_id property = sub"
  let ?b = "if isFinite bal then finite_value bal else 0"
  let ?l = "new_lease st now propertyId renterId startDate occ rent (of_int due) ?b"
  let ?st = "st\<lparr>leases := leases st @ [?l]\<rparr>"
  from h have h': "propertyId \<noteq> 0" "renterId \<noteq> []" "0 < rent" "1 \<le> due" "due \<le> 31"
    "getRentalPropertyById st propertyId = Some property" "landlord_id property = sub"
    by simp_all
  have "post_rentals_leases st now sub propertyId renterId startDate occ (Finite rent)
          (Finite (of_int due)) bal = (Json 201 (Some ?l), ?st)"
    using h' by (rule post_leases_ok)
  moreover have "\<forall>v. bal = Finite v \<longrightarrow>
            current_balance ?l = stored v \<and>
            (\<forall>i. v = of_int i \<and> \<bar>i\<bar> < 2 ^ 63 \<longrightarrow> current_balance ?l = SInt i) \<and>
            (fl v = Dbl v \<longrightarrow> json_number (current_balance ?l) = v)"
    by (auto simp: new_lease_def stored_int stored_read_back)
  moreover have "\<not> isFinite bal \<longrightarrow> current_balance ?l = SInt 0"
    by (simp add: new_lease_def stored_small)
  moreover have "leases ?st = leases st @ [?l]" by simp
  moreover have "getLeaseById ?st (l_id ?l) = Some ?l" by (rule new_lease_lookup)
  moreover have "payments ?st = payments st" by simp
  ultimately show "\<exists>created st'.
         post_rentals_leases st now sub propertyId renterId startDate occ (Finite rent)
             (Finite (of_int due)) bal = (Json 201 (Some created), st') \<and>
         (\<forall>v. bal = Finite v \<longrightarrow>
            current_balance created = stored v \<and>
            (\<forall>i. v = of_int i \<and> \<bar>i\<bar> < 2 ^ 63 \<longrightarrow> current_balance created = SInt i) \<and>
            (fl v = Dbl v \<longrightarrow> json_number (current_balance created) = v)) \<and>
         (\<not> isFinite bal \<longrightarrow> current_balance created = SInt 0) \<and>
         leases st' = leases st @ [created] \<and>
         getLeaseById st' (l_id created) = Some created \<and>
         payments st' = payments st"
    by blast
next
  show "\<exists>created.
      leases (ensureDemoRentalData empty_db now startIso uuid1 uuid2) = [created] \<and>
      current_balance created = SInt 1200 \<and>
      listPaymentsForLease (ensureDemoRentalData empty_db now startIso uuid1 uuid2) (l_id created) = []"
    by (simp add: first_run listPaymentsForLease_def order_desc_def)
qed

text \<open>The theorem at a lease for the demo unit with an initial balance of -50, created by
  \<^const>\<open>createLease\<close> and posted by the demo landlord, and at one posted with
  \<^verbatim>\<open>NaN\<close>.\<close>

theorem createLease_stores_initial_balance_witness:
  "(1::nat) \<noteq> 0 \<and> ''renter-1'' \<noteq> [] \<and> (0::rat) < 900 \<and> (1::int) \<le> 5 \<and> (5::int) \<le> 31 \<and>
   getRentalPropertyById demo_db 1 = Some demo_property \<and> landlord_id demo_property = ''landlord-1'' \<and>
   (- 50 :: rat) = of_int (- 50) \<and> \<bar>- 50 :: int\<bar> < 2 ^ 63 \<and> fl (- 50) = Dbl (- 50) \<and>
   (\<exists>created.
      createLease demo_db 9 1 ''renter-1'' None 1 900 5 (- 50) =
        (Some created, demo_db\<lparr>leases := leases demo_db @ [created]\<rparr>) \<and>
      current_balance created = SInt (- 50) \<and>
      json_number (current_balance created) = - 50) \<and>
   (\<exists>created st'.
      post_rentals_leases demo_db 9 ''landlord-1'' 1 ''renter-1'' None 1 (Finite 900) (Finite 5)
          (Finite (- 50)) = (Json 201 (Some created), st') \<and>
      current_balance created = SInt (- 50) \<and>
      leases st' = leases demo_db @ [created] \<and>
      getLeaseById st' (l_id created) = Some created \<and>
      payments st' = payments demo_db) \<and>
   \<not> isFinite NaN \<and>
   (\<exists>created st'.
      post_rentals_leases demo_db 9 ''landlord-1'' 1 ''renter-1'' None 1 (Finite 900) (Finite 5)
          NaN = (Json 201 (Some created), st') \<and>
      current_balance created = SInt 0 \<and>
      leases st' = leases demo_db @ [created] \<and>
      payments st' = payments demo_db)"
proof -
  have h: "(1::nat) \<noteq> 0 \<and> ''renter-1'' \<noteq> [] \<and> (0::rat) < 900 \<and> (1::int) \<le> 5 \<and> (5::int) \<le> 31 \<and>
    getRentalPropertyById demo_db 1 = Some demo_property \<and> landlord_id demo_property = ''landlord-1''"
    using demo_property_found by (simp add: demo_property_def)
  have nan: "\<not> isFinite NaN" by simp
  have w: "(- 50 :: rat) = of_int (- 50)" "\<bar>- 50 :: int\<bar> < 2 ^ 63" by simp_all
  have d: "fl (- 50) = Dbl (- 50)" using fl_int_exact[of "- 50"] by simp
  from createLease_stores_initial_balance
         [of demo_db 9 1 "''renter-1''" None 1 900 5 "- 50" 5 demo_property "''landlord-1''" "Finite (- 50)"]
  obtain c0 where r0:
    "createLease demo_db 9 1 ''renter-1'' None 1 900 5 (- 50) =
        (Some c0, demo_db\<lparr>leases := leases demo_db @ [c0]\<rparr>)"
    "\<forall>i. (- 50 :: rat) = of_int i \<and> \<bar>i\<bar> < 2 ^ 63 \<longrightarrow> current_balance c0 = SInt i"
    "fl (- 50) = Dbl (- 50) \<longrightarrow> json_number (current_balance c0) = - 50"
    by blast
  from r0(2)[rule_format, of "- 50"] have b0: "current_balance c0 = SInt (- 50)" by simp
  from r0(3) d have j0: "json_number (current_balance c0) = - 50" by blast
  from r0(1) b0 j0 have create_case: "\<exists>created.
      createLease demo_db 9 1 ''renter-1'' None 1 900 5 (- 50) =
        (Some created, demo_db\<lparr>leases := leases demo_db @ [created]\<rparr>) \<and>
      current_balance created = SInt (- 50) \<and>
      json_number (current_balance created) = - 50"
    by blast
  from createLease_stores_initial_balance
         [of demo_db 9 1 "''renter-1''" None 1 900 1 0 5 demo_property "''landlord-1''" "Finite (- 50)"] h
  obtain c1 s1 where r1:
    "post_rentals_leases demo_db 9 ''landlord-1'' 1 ''renter-1'' None 1 (Finite 900)
        (Finite (of_int 5)) (Finite (- 50)) = (Json 201 (Some c1), s1)"
    "\<forall>v. Finite (- 50) = Finite v \<longrightarrow>
       current_balance c1 = stored v \<and>
       (\<forall>i. v = of_int i \<and> \<bar>i\<bar> < 2 ^ 63 \<longrightarrow> current_balance c1 = SInt i) \<and>
       (fl v = Dbl v \<longrightarrow> json_number (current_balance c1) = v)"
    "leases s1 = leases demo_db @ [c1]" "getLeaseById s1 (l_id c1) = Some c1"
    "payments s1 = payments demo_db"
    by blast
  from r1(2) have "\<forall>i. (- 50 :: rat) = of_int i \<and> \<bar>i\<bar> < 2 ^ 63 \<longrightarrow> current_balance c1 = SInt i"
    by blast
  from this[rule_format, of "- 50"] have b1: "current_balance c1 = SInt (- 50)" by simp
  from r1(1,3-5) b1 have finite_case: "\<exists>created st'.
      post_rentals_leases demo_db 9 ''landlord-1'' 1 ''renter-1'' None 1 (Finite 900) (Finite 5)
          (Finite (- 50)) = (Json 201 (Some created), st') \<and>
      current_balance created = SInt (- 50) \<and>
      leases st' = leases demo_db @ [created] \<and>
      getLeaseById st' (l_id created) = Some created \<and>
      payments st' = payments demo_db"
    by auto
  from createLease_stores_initial_balance
         [of demo_db 9 1 "''renter-1''" None 1 900 1 0 5 demo_property "''landlord-1''" NaN] h
  obtain c2 s2 where r2:
    "post_rentals_leases demo_db 9 ''landlord-1'' 1 ''renter-1'' None 1 (Finite 900)
        (Finite (of_int 5)) NaN = (Json 201 (Some c2), s2)"
    "\<not> isFinite NaN \<longrightarrow> current_balance c2 = SInt 0"
    "leases s2 = leases demo_db @ [c2]" "payments s2 = payments demo_db"
    by blast
  with nan have nan_case: "\<exists>created st'.
      post_rentals_leases demo_db 9 ''landlord-1'' 1 ''renter-1'' None 1 (Finite 900) (Finite 5)
          NaN = (Json 201 (Some created), st') \<and>
      current_balance created = SInt 0 \<and>
      leases st' = leases demo_db @ [created] \<and>
      payments st' = payments demo_db"
    by auto
  from h nan w d create_case finite_case nan_case show ?thesis by blast
qed

end
